theory Spec2Isabelle
  imports Main "HOL-Library.Word"
begin

section \<open>Data model (database.js)\<close>

text \<open>
  Documents are records, one per Mongoose schema; a collection is the list of its
  documents in insertion order. An ObjectId is an abstract number, a Date is the number
  of milliseconds since the epoch. A schema path that may be absent is an option; a
  path with a default is a plain value.
\<close>

type_synonym oid = nat
type_synonym date = int

record hospital =
  h_id :: oid
  h_name :: string
  h_email :: string
  h_phone :: "string option"
  h_address :: "string option"
  h_subscriptionStatus :: string
  h_subscriptionExpiry :: "string option"
  h_createdAt :: date
  h_lastLogin :: "date option"

record user =
  u_id :: oid
  u_hospitalId :: oid
  u_username :: string
  u_email :: "string option"
  u_role :: string
  u_password :: string
  u_createdAt :: date
  u_lastLogin :: "date option"

record patient =
  p_id :: oid
  p_hospitalId :: oid
  p_token :: "nat option"
  p_publicToken :: "string option"
  p_name :: "string option"
  p_age :: "int option"
  p_gender :: "string option"
  p_phone :: "string option"
  p_address :: "string option"
  p_bloodGroup :: "string option"
  p_emergencyContact :: "string option"
  p_emergencyPhone :: "string option"
  p_insuranceId :: "string option"
  p_medicalHistory :: "string option"
  p_allergies :: "string option"
  p_chronicConditions :: "string option"
  p_patientType :: "string option"
  p_opdIpd :: "string option"
  p_department :: "string option"
  p_doctorId :: "int option"
  p_reason :: "string option"
  p_status :: "string option"
  p_registeredAt :: date
  p_appointmentDate :: "string option"
  p_vitals :: "string option"
  p_prescription :: "string option"
  p_diagnosis :: "string option"
  p_pharmacyState :: "string option"
  p_history :: "string option"
  p_cost :: int
  p_reports :: "string option"

record labTest =
  t_id :: oid
  t_hospitalId :: oid
  t_patientId :: "oid option"
  t_testName :: "string option"
  t_testType :: "string option"
  t_orderedBy :: "string option"
  t_orderedAt :: date
  t_status :: string
  t_result :: "string option"
  t_resultDate :: "date option"
  t_priority :: string
  t_sampleStatus :: string
  t_technicianId :: "int option"
  t_machineId :: "string option"
  t_sampleCollectedAt :: "date option"
  t_sampleCollectedBy :: "string option"
  t_rejectionReason :: "string option"
  t_startedAt :: "date option"
  t_completedAt :: "date option"

record labResult =
  r_id :: oid
  r_testId :: oid
  r_parameterName :: string
  r_value :: "string option"
  r_unit :: "string option"
  r_referenceRange :: "string option"
  r_isAbnormal :: bool
  r_notes :: "string option"

text \<open>
  Of a PrescriptionTemplate only the paths that decide the control flow of the PDF
  handler are kept; the other paths only feed the page layout.
\<close>

record template =
  pt_id :: oid
  pt_hospitalId :: oid
  pt_hospitalName :: "string option"
  pt_hospitalAddress :: "string option"
  pt_hospitalPhone :: "string option"
  pt_showLetterhead :: bool

section \<open>The store and the driver\<close>

text \<open>
  Every awaited Mongoose call may throw (connection lost, malformed id, ...). The
  schedule \<open>faults\<close> says which: each call takes the head of the list, \<open>True\<close> meaning
  that this call throws before touching the store; an empty schedule means no more
  faults. A handler that throws keeps the writes made before the throw: there is no
  transaction anywhere in the source.
\<close>

datatype exn = MongoError | ValidationError | DuplicateKeyError | TypeError

record world =
  hospitals :: "hospital list"
  users :: "user list"
  patients :: "patient list"
  labTests :: "labTest list"
  labResults :: "labResult list"
  templates :: "template list"
  nextOid :: oid
  faults :: "bool list"

type_synonym 'a io = "world \<Rightarrow> (exn + 'a) \<times> world"

definition driver :: "world \<Rightarrow> bool \<times> world" where
  "driver w = (case faults w of [] \<Rightarrow> (False, w) | f # fs \<Rightarrow> (f, w\<lparr>faults := fs\<rparr>))"

definition dbcall :: "'a io \<Rightarrow> 'a io" where
  "dbcall operation w =
     (case driver w of
        (True, w1) \<Rightarrow> (Inl MongoError, w1)
      | (False, w1) \<Rightarrow> operation w1)"

text \<open>\<open>throws_at w n\<close>: the schedule of \<open>w\<close> makes the call after the next \<open>n\<close> calls throw.\<close>

definition fault_at :: "bool list \<Rightarrow> nat \<Rightarrow> bool" where
  "fault_at fs n = (n < length fs \<and> fs ! n)"

definition throws_at :: "world \<Rightarrow> nat \<Rightarrow> bool" where
  "throws_at w n = fault_at (faults w) n"

text \<open>\<open>await m k\<close> is \<open>const x = await m; k x\<close> inside a \<open>try\<close> block: a throw skips \<open>k\<close>.\<close>

text \<open>
  A handler is suspended at every \<open>await\<close>, and the event loop runs the database calls
  of other events meanwhile. Where a handler reads the store in one call and writes what
  it read in a later one, the model has an \<open>_interleaved\<close> form of the handler with a
  parameter \<open>between\<close>: the effect on the store of everything that ran between those
  two calls. The plain form of the handler is the event handled alone, with nothing in
  between.
\<close>

definition await :: "'a io \<Rightarrow> ('a \<Rightarrow> world \<Rightarrow> 'b \<times> world) \<Rightarrow> (exn \<Rightarrow> 'b) \<Rightarrow> world \<Rightarrow> 'b \<times> world" where
  "await m k catch w =
     (case m w of
        (Inl e, w1) \<Rightarrow> (catch e, w1)
      | (Inr x, w1) \<Rightarrow> k x w1)"

text \<open>JavaScript truthiness of an optional string: \<open>undefined\<close>, \<open>null\<close> and \<open>''\<close> are falsy.\<close>

fun truthy :: "string option \<Rightarrow> bool" where
  "truthy None = False"
| "truthy (Some s) = (s \<noteq> [])"

text \<open>\<open>x || d\<close> on an optional string.\<close>

definition or_default :: "string option \<Rightarrow> string \<Rightarrow> string" where
  "or_default x d = (case x of None \<Rightarrow> d | Some s \<Rightarrow> if s = [] then d else s)"

text \<open>
  \<open>findByIdAndUpdate\<close> and \<open>findOne\<close> act on the first document that matches. An update
  path whose value is \<open>undefined\<close> is dropped from the update by Mongoose, so the
  stored value stays.
\<close>

fun update_first :: "('a \<Rightarrow> bool) \<Rightarrow> ('a \<Rightarrow> 'a) \<Rightarrow> 'a list \<Rightarrow> 'a list" where
  "update_first P f [] = []"
| "update_first P f (x # xs) = (if P x then f x # xs else x # update_first P f xs)"

subsection \<open>Model methods\<close>

definition LabTest_findByIdAndUpdate :: "oid \<Rightarrow> (labTest \<Rightarrow> labTest) \<Rightarrow> (labTest option) io" where
  "LabTest_findByIdAndUpdate i f =
     dbcall (\<lambda>w. (Inr (find (\<lambda>t. t_id t = i) (labTests w)),
                  w\<lparr>labTests := update_first (\<lambda>t. t_id t = i) f (labTests w)\<rparr>))"

definition LabResult_deleteMany :: "oid \<Rightarrow> unit io" where
  "LabResult_deleteMany testId =
     dbcall (\<lambda>w. (Inr (), w\<lparr>labResults := filter (\<lambda>r. r_testId r \<noteq> testId) (labResults w)\<rparr>))"

text \<open>
  A document sent by the client for \<open>LabResult.insertMany\<close>. \<open>parameterName\<close> is
  \<open>required\<close> in the schema: Mongoose validates every document before it writes any, and a
  missing or empty name throws, before the driver is called.
\<close>

record resultDoc =
  d_testId :: oid
  d_parameterName :: "string option"
  d_value :: "string option"
  d_unit :: "string option"
  d_referenceRange :: "string option"
  d_isAbnormal :: "bool option"
  d_notes :: "string option"

fun number_docs :: "oid \<Rightarrow> resultDoc list \<Rightarrow> labResult list" where
  "number_docs n [] = []"
| "number_docs n (d # ds) =
     \<lparr>r_id = n, r_testId = d_testId d,
      r_parameterName = (case d_parameterName d of None \<Rightarrow> [] | Some s \<Rightarrow> s),
      r_value = d_value d, r_unit = d_unit d, r_referenceRange = d_referenceRange d,
      r_isAbnormal = (case d_isAbnormal d of None \<Rightarrow> False | Some b \<Rightarrow> b),
      r_notes = d_notes d\<rparr> # number_docs (Suc n) ds"

definition LabResult_insertMany :: "resultDoc list \<Rightarrow> (labResult list) io" where
  "LabResult_insertMany docs =
     (if list_all (\<lambda>d. truthy (d_parameterName d)) docs
      then dbcall (\<lambda>w.
             let rs = number_docs (nextOid w) docs
             in (Inr rs, w\<lparr>labResults := labResults w @ rs, nextOid := nextOid w + length docs\<rparr>))
      else (\<lambda>w. (Inl ValidationError, w)))"

section \<open>HTTP\<close>

record session =
  s_userId :: "oid option"
  s_hospitalId :: "oid option"
  s_username :: "string option"
  s_role :: "string option"

text \<open>
  A row of the exported sheet: the ten columns the handler declares. \<open>registeredAt\<close>
  is written as a formatted date; the model keeps the date.
\<close>

record exportRow =
  x_name :: "string option"
  x_registeredAt :: date
  x_phone :: "string option"
  x_age :: "int option"
  x_gender :: "string option"
  x_department :: "string option"
  x_reason :: "string option"
  x_prescription :: "string option"
  x_cost :: int
  x_status :: "string option"

record pagination =
  pg_total :: nat
  pg_page :: nat
  pg_totalPages :: "nat option"
  pg_limit :: nat

record loginUser =
  lu_id :: oid
  lu_username :: string
  lu_role :: string
  lu_hospitalId :: oid

text \<open>
  What a handler answers: \<open>Error_message\<close> is \<open>{ error: ... }\<close>, \<open>Failure\<close> is
  \<open>{ success: false, message: ... }\<close>, and the \<open>thrown\<close> variants carry \<open>err.message\<close>.
\<close>

datatype body =
    Success
  | Error_message string
  | Error_thrown exn
  | Failure string
  | Failure_thrown string exn
  | Patient_page "patient list" pagination
  | One_patient patient
  | Workbook "exportRow list"
  | Pdf_document string
  | Login_successful loginUser
  | Registered oid string

datatype response = Response nat body

subsection \<open>Lab workflow\<close>

record sampleBody =
  sb_status :: "string option"
  sb_rejectionReason :: "string option"

definition sample_update :: "sampleBody \<Rightarrow> string \<Rightarrow> date \<Rightarrow> labTest \<Rightarrow> labTest" where
  "sample_update b usr now t =
     (let t1 = (case sb_status b of None \<Rightarrow> t | Some s \<Rightarrow> t\<lparr>t_sampleStatus := s\<rparr>);
          t2 = t1\<lparr>t_sampleCollectedBy := Some usr, t_sampleCollectedAt := Some now\<rparr>
      in if sb_status b = Some ''rejected''
         then (case sb_rejectionReason b of None \<Rightarrow> t2 | Some r \<Rightarrow> t2\<lparr>t_rejectionReason := Some r\<rparr>)
         else t2)"

definition POST_lab_sample :: "session \<Rightarrow> oid \<Rightarrow> sampleBody \<Rightarrow> date \<Rightarrow> world \<Rightarrow> response \<times> world" where
  "POST_lab_sample ses i b now =
     (let usr = or_default (s_username ses) ''Unknown''
      in await (LabTest_findByIdAndUpdate i (sample_update b usr now))
           (\<lambda>_ w. (Response 200 Success, w))
           (\<lambda>err. Response 500 (Error_thrown err)))"

record processBody =
  pb_status :: "string option"
  pb_machineId :: "string option"

definition process_update :: "processBody \<Rightarrow> date \<Rightarrow> labTest \<Rightarrow> labTest" where
  "process_update b now t =
     (let t1 = (case pb_status b of None \<Rightarrow> t | Some s \<Rightarrow> t\<lparr>t_status := s\<rparr>)
      in if pb_status b = Some ''in_progress''
         then (case pb_machineId b of
                 None \<Rightarrow> t1\<lparr>t_startedAt := Some now\<rparr>
               | Some m \<Rightarrow> t1\<lparr>t_startedAt := Some now, t_machineId := Some m\<rparr>)
         else if pb_status b = Some ''completed''
         then t1\<lparr>t_completedAt := Some now\<rparr>
         else t1)"

definition POST_lab_process :: "oid \<Rightarrow> processBody \<Rightarrow> date \<Rightarrow> world \<Rightarrow> response \<times> world" where
  "POST_lab_process i b now =
     await (LabTest_findByIdAndUpdate i (process_update b now))
       (\<lambda>_ w. (Response 200 Success, w))
       (\<lambda>err. Response 500 (Error_thrown err))"

text \<open>
  The body of \<open>POST /api/lab/tests/:id/results\<close>: \<open>results\<close> is \<open>None\<close> when the key is
  missing or is not an array.
\<close>

record resultInput =
  ri_parameterName :: "string option"
  ri_value :: "string option"
  ri_unit :: "string option"
  ri_referenceRange :: "string option"
  ri_isAbnormal :: "bool option"
  ri_notes :: "string option"

definition resultDocs :: "oid \<Rightarrow> resultInput list \<Rightarrow> resultDoc list" where
  "resultDocs testId results =
     map (\<lambda>r. \<lparr>d_testId = testId, d_parameterName = ri_parameterName r, d_value = ri_value r,
               d_unit = ri_unit r, d_referenceRange = ri_referenceRange r,
               d_isAbnormal = ri_isAbnormal r, d_notes = ri_notes r\<rparr>) results"

definition POST_lab_results :: "oid \<Rightarrow> resultInput list option \<Rightarrow> date \<Rightarrow> world \<Rightarrow> response \<times> world" where
  "POST_lab_results testId results now =
     (case results of
        None \<Rightarrow> (\<lambda>w. (Response 400 (Error_message ''Invalid results data''), w))
      | Some rs \<Rightarrow>
          await (LabResult_deleteMany testId)
            (\<lambda>_. await (LabResult_insertMany (resultDocs testId rs))
               (\<lambda>_. await (LabTest_findByIdAndUpdate testId
                              (\<lambda>t. t\<lparr>t_status := ''completed'', t_resultDate := Some now\<rparr>))
                  (\<lambda>_ w. (Response 200 Success, w))
                  (\<lambda>err. Response 500 (Error_thrown err)))
               (\<lambda>err. Response 500 (Error_thrown err)))
            (\<lambda>err. Response 500 (Error_thrown err)))"

section \<open>Socket events\<close>

text \<open>
  What a handler emits, in order: to the originating client (\<open>socket.emit\<close>), to a room
  (\<open>io.to(room).emit\<close>) or to every client (\<open>io.emit\<close>).
\<close>

datatype target = Socket | Room string | Everyone

datatype payload =
    No_payload
  | Message string
  | Thrown exn
  | Patient_doc patient
  | Queue_patient patient
  | Lab_created oid
  | Lab_failed string
  | Lab_thrown exn

type_synonym emitted = "target \<times> string \<times> payload"

record doctor =
  dr_id :: string
  dr_name :: string
  dr_dept :: string
  dr_status :: string

definition doctors :: "doctor list" where
  "doctors =
     [\<lparr>dr_id = ''1'', dr_name = ''Dr. Asha Patel'', dr_dept = ''General'', dr_status = ''available''\<rparr>,
      \<lparr>dr_id = ''2'', dr_name = ''Dr. Rajesh Singh'', dr_dept = ''Orthopedics'', dr_status = ''available''\<rparr>,
      \<lparr>dr_id = ''3'', dr_name = ''Dr. Nisha Rao'', dr_dept = ''Gynecology'', dr_status = ''available''\<rparr>,
      \<lparr>dr_id = ''4'', dr_name = ''Dr. Vikram Shah'', dr_dept = ''Cardiology'', dr_status = ''available''\<rparr>]"

text \<open>
  A doctor id as a client sends it, or as a document holds it. The table above holds
  strings and \<open>===\<close> compares without conversion, so a string id is never equal to a
  number. The schema path \<open>doctorId\<close> is a Number: Mongoose converts a string of digits
  when it stores it.
\<close>

datatype js_id = Id_undefined | Id_string string | Id_number int

fun strict_eq :: "string \<Rightarrow> js_id \<Rightarrow> bool" where
  "strict_eq s (Id_string t) = (s = t)"
| "strict_eq s _ = False"

fun stored_id :: "int option \<Rightarrow> js_id" where
  "stored_id None = Id_undefined"
| "stored_id (Some n) = Id_number n"

fun digits_value :: "nat \<Rightarrow> string \<Rightarrow> nat option" where
  "digits_value acc [] = Some acc"
| "digits_value acc (c # cs) =
     (let n = (of_char c :: nat)
      in if 48 \<le> n \<and> n \<le> 57 then digits_value (10 * acc + (n - 48)) cs else None)"

definition Number_cast :: "string \<Rightarrow> int option" where
  "Number_cast s = (if s = [] then None else map_option int (digits_value 0 s))"

subsection \<open>Patient model methods\<close>

definition Patient_countDocuments :: "(patient \<Rightarrow> bool) \<Rightarrow> nat io" where
  "Patient_countDocuments q = dbcall (\<lambda>w. (Inr (length (filter q (patients w))), w))"

definition Patient_findOne :: "(patient \<Rightarrow> bool) \<Rightarrow> (patient option) io" where
  "Patient_findOne q = dbcall (\<lambda>w. (Inr (find q (patients w)), w))"

definition Patient_findById :: "oid \<Rightarrow> (patient option) io" where
  "Patient_findById i = Patient_findOne (\<lambda>p. p_id p = i)"

text \<open>\<open>Patient.create\<close>: the store gives the document its \<open>_id\<close>.\<close>

definition Patient_create :: "patient \<Rightarrow> patient io" where
  "Patient_create doc =
     dbcall (\<lambda>w. let p = doc\<lparr>p_id := nextOid w\<rparr>
                 in (Inr p, w\<lparr>patients := patients w @ [p], nextOid := Suc (nextOid w)\<rparr>))"

text \<open>\<open>patient.save()\<close> writes the document back under its \<open>_id\<close>.\<close>

definition Patient_save :: "patient \<Rightarrow> unit io" where
  "Patient_save p =
     dbcall (\<lambda>w. (Inr (), w\<lparr>patients := update_first (\<lambda>q. p_id q = p_id p) (\<lambda>_. p) (patients w)\<rparr>))"

text \<open>With \<open>{ new: true }\<close> the updated document is returned.\<close>

definition Patient_findByIdAndUpdate_new :: "oid \<Rightarrow> (patient \<Rightarrow> patient) \<Rightarrow> (patient option) io" where
  "Patient_findByIdAndUpdate_new i f =
     dbcall (\<lambda>w. (Inr (map_option f (find (\<lambda>p. p_id p = i) (patients w))),
                  w\<lparr>patients := update_first (\<lambda>p. p_id p = i) f (patients w)\<rparr>))"

definition LabTest_findOne :: "(labTest \<Rightarrow> bool) \<Rightarrow> (labTest option) io" where
  "LabTest_findOne q = dbcall (\<lambda>w. (Inr (find q (labTests w)), w))"

definition LabTest_create :: "labTest \<Rightarrow> labTest io" where
  "LabTest_create doc =
     dbcall (\<lambda>w. let t = doc\<lparr>t_id := nextOid w\<rparr>
                 in (Inr t, w\<lparr>labTests := labTests w @ [t], nextOid := Suc (nextOid w)\<rparr>))"

subsection \<open>register-patient\<close>

text \<open>
  The event's data. \<open>vitals\<close> and \<open>history\<close> hold the JSON text of the value the client
  sent, \<open>None\<close> when it sent none (or a falsy one).
\<close>

record registerData =
  rd_name :: "string option"
  rd_department :: "string option"
  rd_hospitalId :: "oid option"
  rd_doctorId :: "int option"
  rd_age :: "int option"
  rd_gender :: "string option"
  rd_phone :: "string option"
  rd_address :: "string option"
  rd_patientType :: "string option"
  rd_opdIpd :: "string option"
  rd_reason :: "string option"
  rd_vitals :: "string option"
  rd_prescription :: "string option"
  rd_history :: "string option"
  rd_cost :: "int option"

text \<open>
  \<open>String.prototype.trim\<close>. A text is the list of its UTF-8 bytes, and \<open>whiteSpace\<close>
  lists the encodings of the characters \<open>trim\<close> strips: the white space and line
  terminators of the language (U+0009 to U+000D, U+0020, U+00A0, U+1680, U+2000 to
  U+200A, U+2028, U+2029, U+202F, U+205F, U+3000 and U+FEFF). No encoding of a
  character ends with the encoding of another, so stripping them from the reversed
  bytes strips the characters from the end.
\<close>

fun startsWith :: "string \<Rightarrow> string \<Rightarrow> bool" where
  "startsWith s [] = True"
| "startsWith [] (k # ks) = False"
| "startsWith (c # cs) (k # ks) = (c = k \<and> startsWith cs ks)"

definition whiteSpace :: "string list" where
  "whiteSpace =
     [[CHR 0x09], [CHR 0x0A], [CHR 0x0B], [CHR 0x0C], [CHR 0x0D], [CHR 0x20],
      [CHR 0xC2, CHR 0xA0],
      [CHR 0xE1, CHR 0x9A, CHR 0x80],
      [CHR 0xE2, CHR 0x80, CHR 0x80], [CHR 0xE2, CHR 0x80, CHR 0x81],
      [CHR 0xE2, CHR 0x80, CHR 0x82], [CHR 0xE2, CHR 0x80, CHR 0x83],
      [CHR 0xE2, CHR 0x80, CHR 0x84], [CHR 0xE2, CHR 0x80, CHR 0x85],
      [CHR 0xE2, CHR 0x80, CHR 0x86], [CHR 0xE2, CHR 0x80, CHR 0x87],
      [CHR 0xE2, CHR 0x80, CHR 0x88], [CHR 0xE2, CHR 0x80, CHR 0x89],
      [CHR 0xE2, CHR 0x80, CHR 0x8A],
      [CHR 0xE2, CHR 0x80, CHR 0xA8], [CHR 0xE2, CHR 0x80, CHR 0xA9],
      [CHR 0xE2, CHR 0x80, CHR 0xAF],
      [CHR 0xE2, CHR 0x81, CHR 0x9F],
      [CHR 0xE3, CHR 0x80, CHR 0x80],
      [CHR 0xEF, CHR 0xBB, CHR 0xBF]]"

function strip_leading :: "string list \<Rightarrow> string \<Rightarrow> string" where
  "strip_leading table s =
     (case find (\<lambda>ws. ws \<noteq> [] \<and> startsWith s ws) table of
        None \<Rightarrow> s
      | Some ws \<Rightarrow> strip_leading table (drop (length ws) s))"
  by pat_completeness auto
termination
proof (relation "measure (\<lambda>(table, s). length s)")
  show "wf (measure (\<lambda>(table, s). length s))"
    by simp
next
  fix table :: "string list" and s ws :: string
  assume "find (\<lambda>ws. ws \<noteq> [] \<and> startsWith s ws) table = Some ws"
  then have "ws \<noteq> []" and "startsWith s ws"
    by (auto simp: find_Some_iff)
  then have "s \<noteq> []"
    by (cases s; cases ws) simp_all
  with \<open>ws \<noteq> []\<close> show "((table, drop (length ws) s), (table, s)) \<in> measure (\<lambda>(table, s). length s)"
    by simp
qed

definition trim :: "string \<Rightarrow> string" where
  "trim s = rev (strip_leading (map rev whiteSpace) (rev (strip_leading whiteSpace s)))"

text \<open>The fallback ObjectId \<open>000000000000000000000000\<close>.\<close>

definition fallbackHospitalId :: oid where
  "fallbackHospitalId = 0"

definition falsy_number :: "int option \<Rightarrow> bool" where
  "falsy_number n = (n = None \<or> n = Some 0)"

definition assignDoctor :: "int option \<Rightarrow> string \<Rightarrow> int option" where
  "assignDoctor doctorId dept =
     (if falsy_number doctorId
      then (case find (\<lambda>d. dr_dept d = dept \<and> dr_status d = ''available'') doctors of
              None \<Rightarrow> None
            | Some avail \<Rightarrow> Number_cast (dr_id avail))
      else doctorId)"

definition newPatientDoc :: "registerData \<Rightarrow> oid \<Rightarrow> string \<Rightarrow> nat \<Rightarrow> date \<Rightarrow> patient" where
  "newPatientDoc data hospitalId dept token now =
     \<lparr>p_id = 0,
      p_hospitalId = hospitalId,
      p_token = Some token,
      p_publicToken = None,
      p_name = Some (or_default (rd_name data) ''Unknown''),
      p_age = rd_age data,
      p_gender = rd_gender data,
      p_phone = rd_phone data,
      p_address = rd_address data,
      p_bloodGroup = None,
      p_emergencyContact = None,
      p_emergencyPhone = None,
      p_insuranceId = None,
      p_medicalHistory = None,
      p_allergies = None,
      p_chronicConditions = None,
      p_patientType = Some (or_default (rd_patientType data) ''New''),
      p_opdIpd = Some (or_default (rd_opdIpd data) ''OPD''),
      p_department = Some dept,
      p_doctorId = assignDoctor (rd_doctorId data) dept,
      p_reason = rd_reason data,
      p_status = Some ''waiting'',
      p_registeredAt = now,
      p_appointmentDate = None,
      p_vitals = Some (or_default (rd_vitals data) ''{}''),
      p_prescription = rd_prescription data,
      p_diagnosis = None,
      p_pharmacyState = None,
      p_history = Some (or_default (rd_history data) ''[]''),
      p_cost = (case rd_cost data of None \<Rightarrow> 0 | Some c \<Rightarrow> c),
      p_reports = None\<rparr>"

definition register_patient_interleaved ::
    "registerData \<Rightarrow> date \<Rightarrow> (world \<Rightarrow> world) \<Rightarrow> world \<Rightarrow> emitted list \<times> world" where
  "register_patient_interleaved data now between =
     (let dept = or_default (rd_department data) ''General'';
          hospitalId = (case rd_hospitalId data of None \<Rightarrow> fallbackHospitalId | Some h \<Rightarrow> h)
      in if \<not> truthy (rd_name data) \<or> \<not> truthy (map_option trim (rd_name data))
         then (\<lambda>w. ([(Socket, ''patient-registration-error'', Message ''Patient name is required'')], w))
         else
           await (Patient_countDocuments (\<lambda>p. p_department p = Some dept \<and> p_hospitalId p = hospitalId))
             (\<lambda>count counted.
                (let token = count + 1
                 in await (Patient_create (newPatientDoc data hospitalId dept token now))
                      (\<lambda>newPatient w.
                         ([(Room ''doctors'', ''patient-registered'', Patient_doc newPatient),
                           (Room ''reception'', ''patient-registered'', Patient_doc newPatient),
                           (Everyone, ''queue-updated'', Queue_patient newPatient),
                           (Socket, ''patient-registered'', Patient_doc newPatient)], w))
                      (\<lambda>err. [(Socket, ''patient-registration-error'', Thrown err)]))
                  (between counted))
             (\<lambda>err. [(Socket, ''patient-registration-error'', Thrown err)]))"

definition register_patient :: "registerData \<Rightarrow> date \<Rightarrow> world \<Rightarrow> emitted list \<times> world" where
  "register_patient data now = register_patient_interleaved data now (\<lambda>w. w)"

text \<open>
  The per-department token counter is not stored: it is the number of patients of the
  hospital in the department, which is what the handler counts. \<open>registered_patient\<close>
  is the document the handler creates when it has counted in the store \<open>w\<close> and
  creates in the store \<open>wc\<close>.
\<close>

definition token_counter :: "oid \<Rightarrow> string \<Rightarrow> world \<Rightarrow> nat" where
  "token_counter hospitalId dept w =
     length (filter (\<lambda>p. p_department p = Some dept \<and> p_hospitalId p = hospitalId) (patients w))"

definition registered_patient :: "registerData \<Rightarrow> date \<Rightarrow> world \<Rightarrow> world \<Rightarrow> patient" where
  "registered_patient data now w wc =
     (let dept = or_default (rd_department data) ''General'';
          hospitalId = (case rd_hospitalId data of None \<Rightarrow> fallbackHospitalId | Some h \<Rightarrow> h)
      in (newPatientDoc data hospitalId dept (token_counter hospitalId dept w + 1) now)\<lparr>p_id := nextOid wc\<rparr>)"

subsection \<open>move-patient\<close>

record moveData =
  mv_id :: oid
  mv_status :: "string option"
  mv_doctorId :: "int option"
  mv_pharmacyState :: "string option"

definition move_assign :: "moveData \<Rightarrow> patient \<Rightarrow> patient" where
  "move_assign d p =
     (let p1 = (if truthy (mv_status d) then p\<lparr>p_status := mv_status d\<rparr> else p);
          p2 = (if falsy_number (mv_doctorId d) then p1 else p1\<lparr>p_doctorId := mv_doctorId d\<rparr>)
      in if truthy (mv_pharmacyState d) then p2\<lparr>p_pharmacyState := mv_pharmacyState d\<rparr> else p2)"

definition move_patient :: "moveData \<Rightarrow> world \<Rightarrow> emitted list \<times> world" where
  "move_patient d =
     await (Patient_findById (mv_id d))
       (\<lambda>found.
          case found of
            None \<Rightarrow> (\<lambda>w. ([], w))
          | Some p0 \<Rightarrow>
              (let p = move_assign d p0
               in await (Patient_save p)
                    (\<lambda>_ w.
                       ([(Everyone, ''patient-updated'', Patient_doc p),
                         (Room ''doctors'', ''queue-updated'', Queue_patient p),
                         (Room ''reception'', ''queue-updated'', Queue_patient p),
                         (Room ''pharmacy'', ''queue-updated'', Queue_patient p)], w))
                    (\<lambda>err. [])))
       (\<lambda>err. [])"

subsection \<open>update-prescription\<close>

text \<open>
  \<open>toLowerCase\<close> and \<open>includes\<close> on the UTF-8 bytes of a text: the letters A to Z are
  lowered, every other byte stays. The nine keywords are lower-case ASCII, so this is
  all of \<open>toLowerCase\<close> that \<open>includes\<close> can see here: beyond A to Z the language lowers
  only U+212A to an ASCII letter (k, which no keyword has) and U+0130 to i followed by
  U+0307 (and no keyword ends in i).
\<close>

definition lower_char :: "char \<Rightarrow> char" where
  "lower_char c =
     (let n = (of_char c :: nat) in if 65 \<le> n \<and> n \<le> 90 then char_of (n + 32) else c)"

definition toLowerCase :: "string \<Rightarrow> string" where
  "toLowerCase s = map lower_char s"

fun includes_str :: "string \<Rightarrow> string \<Rightarrow> bool" where
  "includes_str [] k = (k = [])"
| "includes_str (c # cs) k = (startsWith (c # cs) k \<or> includes_str cs k)"

definition labKeywords :: "string list" where
  "labKeywords =
     [''test'', ''lab'', ''cbc'', ''blood'', ''urine'', ''x-ray'', ''scan'', ''profile'', ''panel'']"

definition hasLabRequest :: "string \<Rightarrow> bool" where
  "hasLabRequest prescription =
     list_ex (\<lambda>keyword. includes_str (toLowerCase prescription) keyword) labKeywords"

text \<open>
  \<open>today.setHours(0, 0, 0, 0)\<close> is the local midnight before a date, as the calendar of
  the runtime has it (zone, clock changes): the handler takes that function as the
  parameter \<open>localMidnight\<close>. \<open>utcMidnight\<close> is what it is on a server whose zone is UTC.
\<close>

definition msPerDay :: int where
  "msPerDay = 86400000"

definition utcMidnight :: "date \<Rightarrow> date" where
  "utcMidnight t = t - (t mod msPerDay)"

definition pendingSince :: "oid \<Rightarrow> date \<Rightarrow> labTest \<Rightarrow> bool" where
  "pendingSince i today t =
     (t_patientId t = Some i \<and> today \<le> t_orderedAt t \<and> t_status t = ''pending'')"

definition doctorNameOf :: "js_id \<Rightarrow> string" where
  "doctorNameOf doctorId =
     (case find (\<lambda>d. strict_eq (dr_id d) doctorId) doctors of
        None \<Rightarrow> ''Doctor''
      | Some d \<Rightarrow> dr_name d)"

definition newLabTestDoc :: "oid \<Rightarrow> oid \<Rightarrow> string \<Rightarrow> string \<Rightarrow> date \<Rightarrow> labTest" where
  "newLabTestDoc hospitalId patientId testName doctorName now =
     \<lparr>t_id = 0,
      t_hospitalId = hospitalId,
      t_patientId = Some patientId,
      t_testName = Some testName,
      t_testType = None,
      t_orderedBy = Some doctorName,
      t_orderedAt = now,
      t_status = ''pending'',
      t_result = None,
      t_resultDate = None,
      t_priority = ''normal'',
      t_sampleStatus = ''pending'',
      t_technicianId = None,
      t_machineId = None,
      t_sampleCollectedAt = None,
      t_sampleCollectedBy = None,
      t_rejectionReason = None,
      t_startedAt = None,
      t_completedAt = None\<rparr>"

definition prescription_events :: "patient \<Rightarrow> emitted list" where
  "prescription_events patient =
     [(Room ''doctors'', ''prescription-updated'', Patient_doc patient),
      (Room ''reception'', ''prescription-updated'', Patient_doc patient),
      (Socket, ''prescription-updated'', Patient_doc patient)]"

text \<open>
  The handler reads the clock twice: \<open>now\<close> for \<open>today\<close>, and \<open>orderedNow\<close> when it
  builds the new test. A prescription that is \<open>undefined\<close> leaves the stored one
  and makes \<open>prescription.toLowerCase()\<close> throw. \<open>before_lookup\<close> is what ran between the
  update of the patient and the lookup of a pending test, \<open>before_create\<close> what ran between
  that lookup and the creation of the test.
\<close>

definition update_prescription_interleaved ::
    "(date \<Rightarrow> date) \<Rightarrow> oid \<Rightarrow> string option \<Rightarrow> date \<Rightarrow> date \<Rightarrow> (world \<Rightarrow> world) \<Rightarrow> (world \<Rightarrow> world)
      \<Rightarrow> world \<Rightarrow> emitted list \<times> world" where
  "update_prescription_interleaved localMidnight i prescription now orderedNow before_lookup before_create =
     await (Patient_findByIdAndUpdate_new i
              (\<lambda>p. case prescription of None \<Rightarrow> p | Some text \<Rightarrow> p\<lparr>p_prescription := Some text\<rparr>))
       (\<lambda>found.
          case found of
            None \<Rightarrow> (\<lambda>w. ([], w))
          | Some patient \<Rightarrow>
              (case prescription of
                 None \<Rightarrow> (\<lambda>w. ([], w))
               | Some text \<Rightarrow>
                   if hasLabRequest text
                   then
                     (\<lambda>updated.
                        await (LabTest_findOne (pendingSince i (localMidnight now)))
                          (\<lambda>existing.
                             case existing of
                               Some _ \<Rightarrow> (\<lambda>w. (prescription_events patient, w))
                             | None \<Rightarrow>
                                 (\<lambda>looked.
                                    await (LabTest_create
                                             (newLabTestDoc (p_hospitalId patient) i
                                                ''Lab Test Request (from Prescription)''
                                                (doctorNameOf (stored_id (p_doctorId patient))) orderedNow))
                                      (\<lambda>_ w. ((Room ''lab'', ''lab-update'', No_payload)
                                               # prescription_events patient, w))
                                      (\<lambda>err. [])
                                      (before_create looked)))
                          (\<lambda>err. [])
                          (before_lookup updated))
                   else (\<lambda>w. (prescription_events patient, w))))
       (\<lambda>err. [])"

definition update_prescription ::
    "(date \<Rightarrow> date) \<Rightarrow> oid \<Rightarrow> string option \<Rightarrow> date \<Rightarrow> date \<Rightarrow> world \<Rightarrow> emitted list \<times> world" where
  "update_prescription localMidnight i prescription now orderedNow =
     update_prescription_interleaved localMidnight i prescription now orderedNow (\<lambda>w. w) (\<lambda>w. w)"

text \<open>
  Two notions of the claims about this handler. \<open>contains_ci\<close>: the text contains the
  keyword when case is ignored. \<open>same_day_pending\<close>: a pending test of the patient that
  was ordered on the calendar day of \<open>now\<close>, that is after the same local midnight.
  \<open>requested_test\<close> is the test the handler creates in the store \<open>w\<close>.
\<close>

definition contains_ci :: "string \<Rightarrow> string \<Rightarrow> bool" where
  "contains_ci text keyword =
     (\<exists>before mid after. text = before @ mid @ after \<and> toLowerCase mid = keyword)"

definition same_day_pending :: "(date \<Rightarrow> date) \<Rightarrow> date \<Rightarrow> oid \<Rightarrow> labTest \<Rightarrow> bool" where
  "same_day_pending localMidnight now i t =
     (t_patientId t = Some i \<and> t_status t = ''pending''
      \<and> localMidnight (t_orderedAt t) = localMidnight now)"

definition requested_test :: "patient \<Rightarrow> oid \<Rightarrow> date \<Rightarrow> world \<Rightarrow> labTest" where
  "requested_test p i orderedNow w =
     (newLabTestDoc (p_hospitalId p) i ''Lab Test Request (from Prescription)''
        (doctorNameOf (stored_id (p_doctorId p))) orderedNow)\<lparr>t_id := nextOid w\<rparr>"

subsection \<open>create-lab-request\<close>

definition create_lab_request ::
    "oid \<Rightarrow> string option \<Rightarrow> js_id \<Rightarrow> date \<Rightarrow> world \<Rightarrow> emitted list \<times> world" where
  "create_lab_request patientId testName doctorId now =
     await (Patient_findById patientId)
       (\<lambda>found.
          case found of
            None \<Rightarrow> (\<lambda>w. ([(Socket, ''lab-request-created'', Lab_failed ''Patient not found'')], w))
          | Some patient \<Rightarrow>
              await (LabTest_create
                       (newLabTestDoc (p_hospitalId patient) patientId
                          (or_default testName ''Manual Lab Request'')
                          (doctorNameOf doctorId) now))
                (\<lambda>newTest w.
                   ([(Room ''lab'', ''lab-update'', No_payload),
                     (Socket, ''lab-request-created'', Lab_created (t_id newTest))], w))
                (\<lambda>err. [(Socket, ''lab-request-created'', Lab_thrown err)]))
       (\<lambda>err. [(Socket, ''lab-request-created'', Lab_thrown err)])"

section \<open>Patient reads\<close>

text \<open>
  \<open>find(query).sort({ key: -1 })\<close> is one query. The query strings \<open>page\<close> and \<open>limit\<close>
  are numbers; a negative \<open>skip\<close> is refused by the store, and a limit of 0 is no limit.
\<close>

definition Patient_find_sorted_desc :: "(patient \<Rightarrow> bool) \<Rightarrow> (patient \<Rightarrow> int) \<Rightarrow> (patient list) io" where
  "Patient_find_sorted_desc q key = dbcall (\<lambda>w. (Inr (rev (sort_key key (filter q (patients w)))), w))"

definition Patient_find_page :: "(patient \<Rightarrow> bool) \<Rightarrow> int \<Rightarrow> nat \<Rightarrow> (patient list) io" where
  "Patient_find_page q skip limit =
     dbcall (\<lambda>w.
       if skip < 0 then (Inl MongoError, w)
       else (let found = drop (nat skip) (rev (sort_key (\<lambda>p. int (p_id p)) (filter q (patients w))))
             in (Inr (if limit = 0 then found else take limit found), w)))"

record patientsQuery =
  q_phone :: "string option"
  q_page :: "nat option"
  q_limit :: "nat option"

definition patients_query :: "session \<Rightarrow> string option \<Rightarrow> patient \<Rightarrow> bool" where
  "patients_query ses phone p =
     ((case s_hospitalId ses of None \<Rightarrow> True | Some h \<Rightarrow> p_hospitalId p = h)
      \<and> (if truthy phone then p_phone p = phone else True))"

definition GET_patients :: "session \<Rightarrow> patientsQuery \<Rightarrow> world \<Rightarrow> response \<times> world" where
  "GET_patients ses q =
     (let page = (case q_page q of None \<Rightarrow> 1 | Some n \<Rightarrow> n);
          limit = (case q_limit q of None \<Rightarrow> 50 | Some n \<Rightarrow> n);
          skip = (int page - 1) * int limit;
          query = patients_query ses (q_phone q)
      in await (Patient_countDocuments query)
           (\<lambda>total.
              await (Patient_find_page query skip limit)
                (\<lambda>found w.
                   (Response 200
                      (Patient_page found
                         \<lparr>pg_total = total, pg_page = page,
                          pg_totalPages = (if limit = 0 then None else Some ((total + limit - 1) div limit)),
                          pg_limit = limit\<rparr>), w))
                (\<lambda>err. Response 500 (Error_thrown err)))
           (\<lambda>err. Response 500 (Error_thrown err)))"

definition GET_patient :: "session \<Rightarrow> oid \<Rightarrow> world \<Rightarrow> response \<times> world" where
  "GET_patient ses i =
     await (Patient_findOne
              (\<lambda>p. p_id p = i \<and> (case s_hospitalId ses of None \<Rightarrow> True | Some h \<Rightarrow> p_hospitalId p = h)))
       (\<lambda>found w.
          case found of
            None \<Rightarrow> (Response 404 (Error_message ''Not found''), w)
          | Some p \<Rightarrow> (Response 200 (One_patient p), w))
       (\<lambda>err. Response 500 (Error_thrown err))"

text \<open>
  \<open>GET /api/export\<close>. The two dates are what \<open>new Date(year, 0, 1)\<close> and
  \<open>new Date(year, month, 1)\<close> give when the request arrives. The session is a parameter
  of every handler; this one never reads it.
\<close>

definition formattedRow :: "patient \<Rightarrow> exportRow" where
  "formattedRow row =
     \<lparr>x_name = p_name row, x_registeredAt = p_registeredAt row, x_phone = p_phone row,
      x_age = p_age row, x_gender = p_gender row, x_department = p_department row,
      x_reason = p_reason row, x_prescription = p_prescription row, x_cost = p_cost row,
      x_status = p_status row\<rparr>"

definition GET_export :: "session \<Rightarrow> string option \<Rightarrow> date \<Rightarrow> date \<Rightarrow> world \<Rightarrow> response \<times> world" where
  "GET_export ses type yearStart monthStart =
     (let startDate = (if type = Some ''year'' then yearStart else monthStart)
      in await (Patient_find_sorted_desc (\<lambda>p. startDate \<le> p_registeredAt p) p_registeredAt)
           (\<lambda>found w. (Response 200 (Workbook (map formattedRow found)), w))
           (\<lambda>err. Response 500 (Error_thrown err)))"

section \<open>Prescription PDF\<close>

type_synonym byte = "8 word"

definition hex_digit :: "nat \<Rightarrow> char" where
  "hex_digit n = ''0123456789abcdef'' ! (n mod 16)"

definition hex_byte :: "byte \<Rightarrow> string" where
  "hex_byte b = [hex_digit (unat b div 16), hex_digit (unat b mod 16)]"

text \<open>
  \<open>crypto.randomBytes(n)\<close> takes the next \<open>n\<close> bytes of the system's random source;
  the source is an input of the model. \<open>generatePublicToken\<close> is the hex text of 32
  such bytes.
\<close>

definition randomBytes :: "nat \<Rightarrow> (nat \<Rightarrow> byte) \<Rightarrow> byte list" where
  "randomBytes n entropy = map entropy [0..<n]"

definition generatePublicToken :: "(nat \<Rightarrow> byte) \<Rightarrow> string" where
  "generatePublicToken entropy = concat (map hex_byte (randomBytes 32 entropy))"







section \<open>Authentication and hospital registration\<close>

text \<open>
  The module \<open>./auth\<close> and the validator middleware are not part of the sources at hand:
  the handlers take them as parameters. A validator answers \<open>Some r\<close> when it ends
  the request itself with the response \<open>r\<close>.
\<close>

record auth =
  verifyHospitalPassword :: "oid \<Rightarrow> string \<Rightarrow> bool"
  comparePassword :: "string \<Rightarrow> string \<Rightarrow> bool"
  hashPassword :: "string \<Rightarrow> string"
  generateHospitalPassword :: "oid \<Rightarrow> string"

definition Hospital_find_all :: "(hospital list) io" where
  "Hospital_find_all = dbcall (\<lambda>w. (Inr (hospitals w), w))"

definition Hospital_findOne :: "(hospital \<Rightarrow> bool) \<Rightarrow> (hospital option) io" where
  "Hospital_findOne q = dbcall (\<lambda>w. (Inr (find q (hospitals w)), w))"

definition Hospital_findByIdAndUpdate :: "oid \<Rightarrow> (hospital \<Rightarrow> hospital) \<Rightarrow> (hospital option) io" where
  "Hospital_findByIdAndUpdate i f =
     dbcall (\<lambda>w. (Inr (find (\<lambda>h. h_id h = i) (hospitals w)),
                  w\<lparr>hospitals := update_first (\<lambda>h. h_id h = i) f (hospitals w)\<rparr>))"

definition User_findOne :: "(user \<Rightarrow> bool) \<Rightarrow> (user option) io" where
  "User_findOne q = dbcall (\<lambda>w. (Inr (find q (users w)), w))"

definition User_findByIdAndUpdate :: "oid \<Rightarrow> (user \<Rightarrow> user) \<Rightarrow> (user option) io" where
  "User_findByIdAndUpdate i f =
     dbcall (\<lambda>w. (Inr (find (\<lambda>u. u_id u = i) (users w)),
                  w\<lparr>users := update_first (\<lambda>u. u_id u = i) f (users w)\<rparr>))"

text \<open>
  \<open>Hospital.create\<close> and \<open>User.create\<close>. Mongoose checks the \<open>required\<close> paths (a
  required string must not be empty) before it calls the driver; the store then
  refuses a document that repeats the key of a unique index: \<open>email\<close> for a hospital
  (\<open>unique: true\<close> on the path), \<open>(hospitalId, username)\<close> for a user
  (\<open>UserSchema.index({ hospitalId: 1, username: 1 }, { unique: true })\<close>).
\<close>

definition Hospital_create :: "hospital \<Rightarrow> hospital io" where
  "Hospital_create doc =
     (if h_name doc = [] \<or> h_email doc = [] then (\<lambda>w. (Inl ValidationError, w))
      else dbcall (\<lambda>w.
             if list_ex (\<lambda>h. h_email h = h_email doc) (hospitals w) then (Inl DuplicateKeyError, w)
             else (let h = doc\<lparr>h_id := nextOid w\<rparr>
                   in (Inr h, w\<lparr>hospitals := hospitals w @ [h], nextOid := Suc (nextOid w)\<rparr>))))"

definition user_key :: "user \<Rightarrow> oid \<times> string" where
  "user_key u = (u_hospitalId u, u_username u)"

definition User_create :: "user \<Rightarrow> user io" where
  "User_create doc =
     (if u_username doc = [] \<or> u_role doc = [] \<or> u_password doc = [] then (\<lambda>w. (Inl ValidationError, w))
      else dbcall (\<lambda>w.
             if list_ex (\<lambda>u. user_key u = user_key doc) (users w) then (Inl DuplicateKeyError, w)
             else (let u = doc\<lparr>u_id := nextOid w\<rparr>
                   in (Inr u, w\<lparr>users := users w @ [u], nextOid := Suc (nextOid w)\<rparr>))))"

subsection \<open>POST /api/hospitals/register\<close>

record hospitalForm =
  hf_name :: "string option"
  hf_email :: "string option"
  hf_phone :: "string option"
  hf_address :: "string option"

record adminForm =
  af_username :: "string option"
  af_password :: "string option"
  af_email :: "string option"

record registerBody =
  rb_hospital :: "hospitalForm option"
  rb_admin :: "adminForm option"

definition null_if_falsy :: "string option \<Rightarrow> string option" where
  "null_if_falsy x = (if truthy x then x else None)"

text \<open>\<open>expiry\<close> is the ISO text of the date thirty days after \<open>now\<close>, as the runtime prints it.\<close>

definition POST_hospitals_register ::
    "auth \<Rightarrow> (registerBody \<Rightarrow> response option) \<Rightarrow> registerBody \<Rightarrow> date \<Rightarrow> string \<Rightarrow> world \<Rightarrow> response \<times> world" where
  "POST_hospitals_register au registerValidators b now expiry =
     (case registerValidators b of
        Some r \<Rightarrow> (\<lambda>w. (r, w))
      | None \<Rightarrow>
         (case (rb_hospital b, rb_admin b) of
            (Some hf, Some af) \<Rightarrow>
              if \<not> truthy (hf_name hf) \<or> \<not> truthy (hf_email hf)
                 \<or> \<not> truthy (af_username af) \<or> \<not> truthy (af_password af)
              then (\<lambda>w. (Response 400 (Failure ''Missing required fields''), w))
              else
                await (Hospital_findOne (\<lambda>h. Some (h_email h) = hf_email hf))
                  (\<lambda>existing.
                     case existing of
                       Some _ \<Rightarrow> (\<lambda>w. (Response 400 (Failure ''Hospital email already registered''), w))
                     | None \<Rightarrow>
                         await (Hospital_create
                                  \<lparr>h_id = 0, h_name = or_default (hf_name hf) [],
                                   h_email = or_default (hf_email hf) [],
                                   h_phone = null_if_falsy (hf_phone hf),
                                   h_address = null_if_falsy (hf_address hf),
                                   h_subscriptionStatus = ''active'',
                                   h_subscriptionExpiry = Some expiry,
                                   h_createdAt = now, h_lastLogin = None\<rparr>)
                           (\<lambda>newHospital.
                              let hospitalId = h_id newHospital;
                                  monthlyPassword = generateHospitalPassword au hospitalId;
                                  hashedPassword = hashPassword au (or_default (af_password af) [])
                              in await (User_create
                                          \<lparr>u_id = 0, u_hospitalId = hospitalId,
                                           u_username = or_default (af_username af) [],
                                           u_email = null_if_falsy (af_email af),
                                           u_role = ''admin'', u_password = hashedPassword,
                                           u_createdAt = now, u_lastLogin = None\<rparr>)
                                   (\<lambda>_ w. (Response 200 (Registered hospitalId monthlyPassword), w))
                                   (\<lambda>err. Response 500 (Failure_thrown ''Failed to register: '' err)))
                           (\<lambda>err. Response 500 (Failure_thrown ''Failed to register: '' err)))
                  (\<lambda>err. Response 500 (Failure_thrown ''Failed to register: '' err))
          | _ \<Rightarrow> (\<lambda>w. (Response 400 (Failure ''Missing required fields''), w))))"

subsection \<open>POST /api/login\<close>

record loginBody =
  lb_hospitalPassword :: "string option"
  lb_username :: "string option"
  lb_userPassword :: "string option"

text \<open>The loop over the hospitals, in the order \<open>Hospital.find({})\<close> returns them.\<close>

datatype hospital_match = No_match | Expired | Matched oid

fun match_hospital :: "auth \<Rightarrow> string \<Rightarrow> hospital list \<Rightarrow> hospital_match" where
  "match_hospital au hospitalPassword [] = No_match"
| "match_hospital au hospitalPassword (h # hs) =
     (if verifyHospitalPassword au (h_id h) hospitalPassword
      then (if h_subscriptionStatus h \<noteq> ''active'' then Expired else Matched (h_id h))
      else match_hospital au hospitalPassword hs)"

definition POST_login ::
    "auth \<Rightarrow> (loginBody \<Rightarrow> response option) \<Rightarrow> session \<Rightarrow> loginBody \<Rightarrow> date \<Rightarrow> world
      \<Rightarrow> (response \<times> session) \<times> world" where
  "POST_login au loginValidators ses b now =
     (case loginValidators b of
        Some r \<Rightarrow> (\<lambda>w. ((r, ses), w))
      | None \<Rightarrow>
         if \<not> truthy (lb_hospitalPassword b) \<or> \<not> truthy (lb_username b) \<or> \<not> truthy (lb_userPassword b)
         then (\<lambda>w. ((Response 400 (Failure ''Missing credentials''), ses), w))
         else
           (let hospitalPassword = or_default (lb_hospitalPassword b) [];
                username = or_default (lb_username b) [];
                userPassword = or_default (lb_userPassword b) []
            in await Hospital_find_all
                 (\<lambda>hs.
                    case match_hospital au hospitalPassword hs of
                      Expired \<Rightarrow> (\<lambda>w. ((Response 403 (Failure ''Subscription expired''), ses), w))
                    | No_match \<Rightarrow> (\<lambda>w. ((Response 401 (Failure ''Invalid hospital password''), ses), w))
                    | Matched matchedHospitalId \<Rightarrow>
                        await (User_findOne (\<lambda>u. u_hospitalId u = matchedHospitalId \<and> u_username u = username))
                          (\<lambda>found.
                             case found of
                               None \<Rightarrow> (\<lambda>w. ((Response 401 (Failure ''Invalid username or password''), ses), w))
                             | Some usr \<Rightarrow>
                                 if \<not> comparePassword au userPassword (u_password usr)
                                 then (\<lambda>w. ((Response 401 (Failure ''Invalid username or password''), ses), w))
                                 else
                                   await (User_findByIdAndUpdate (u_id usr) (\<lambda>u. u\<lparr>u_lastLogin := Some now\<rparr>))
                                     (\<lambda>_. await (Hospital_findByIdAndUpdate matchedHospitalId
                                                    (\<lambda>h. h\<lparr>h_lastLogin := Some now\<rparr>))
                                            (\<lambda>_ w.
                                               ((Response 200
                                                   (Login_successful
                                                      \<lparr>lu_id = u_id usr, lu_username = u_username usr,
                                                       lu_role = u_role usr, lu_hospitalId = matchedHospitalId\<rparr>),
                                                 ses\<lparr>s_userId := Some (u_id usr),
                                                     s_hospitalId := Some matchedHospitalId,
                                                     s_username := Some (u_username usr),
                                                     s_role := Some (u_role usr)\<rparr>), w))
                                            (\<lambda>err. (Response 500 (Failure_thrown ''Database error: '' err), ses)))
                                     (\<lambda>err. (Response 500 (Failure_thrown ''Database error: '' err), ses)))
                          (\<lambda>err. (Response 500 (Failure_thrown ''Database error: '' err), ses)))
                 (\<lambda>err. (Response 500 (Failure_thrown ''Database error: '' err), ses))))"

section \<open>The schemas and their unique indexes\<close>

text \<open>
  The eleven schemas of \<open>database.js\<close> as data: every path with its \<open>required\<close> and
  \<open>unique\<close> options, and the indexes declared with \<open>Schema.index\<close>. The \<open>_id\<close> every
  collection has is not a path of a schema and is left out.
\<close>

datatype model_name =
  Hospital | User | Patient | Vital | LabTest | LabResult | Inventory | Appointment
  | LabInventory | LabTestType | PrescriptionTemplate

record path_decl =
  path_name :: string
  path_required :: bool
  path_unique :: bool

record index_decl =
  ix_paths :: "string list"
  ix_unique :: bool

record schema =
  sc_model :: model_name
  sc_paths :: "path_decl list"
  sc_indexes :: "index_decl list"

definition plain :: "string \<Rightarrow> path_decl" where
  "plain n = \<lparr>path_name = n, path_required = False, path_unique = False\<rparr>"

definition required :: "string \<Rightarrow> path_decl" where
  "required n = \<lparr>path_name = n, path_required = True, path_unique = False\<rparr>"

definition required_unique :: "string \<Rightarrow> path_decl" where
  "required_unique n = \<lparr>path_name = n, path_required = True, path_unique = True\<rparr>"

definition HospitalSchema :: schema where
  "HospitalSchema =
     \<lparr>sc_model = Hospital,
      sc_paths =
       [required ''name'', required_unique ''email'', plain ''phone'', plain ''address'',
        plain ''subscriptionStatus'', plain ''subscriptionExpiry'', plain ''createdAt'',
        plain ''lastLogin''],
      sc_indexes = []\<rparr>"

definition UserSchema :: schema where
  "UserSchema =
     \<lparr>sc_model = User,
      sc_paths =
       [required ''hospitalId'', required ''username'', plain ''email'', required ''role'',
        required ''password'', plain ''createdAt'', plain ''lastLogin''],
      sc_indexes = [\<lparr>ix_paths = [''hospitalId'', ''username''], ix_unique = True\<rparr>]\<rparr>"

definition PatientSchema :: schema where
  "PatientSchema =
     \<lparr>sc_model = Patient,
      sc_paths =
       [required ''hospitalId'', plain ''token'', plain ''publicToken'', plain ''name'',
        plain ''age'', plain ''gender'', plain ''phone'', plain ''address'',
        plain ''bloodGroup'', plain ''emergencyContact'', plain ''emergencyPhone'',
        plain ''insuranceId'', plain ''medicalHistory'', plain ''allergies'',
        plain ''chronicConditions'', plain ''patientType'', plain ''opdIpd'',
        plain ''department'', plain ''doctorId'', plain ''reason'', plain ''status'',
        plain ''registeredAt'', plain ''appointmentDate'', plain ''vitals'',
        plain ''prescription'', plain ''diagnosis'', plain ''pharmacyState'',
        plain ''history'', plain ''cost'', plain ''reports''],
      sc_indexes = []\<rparr>"

definition VitalSchema :: schema where
  "VitalSchema =
     \<lparr>sc_model = Vital,
      sc_paths =
       [required ''hospitalId'', plain ''patientId'', plain ''bloodPressure'',
        plain ''temperature'', plain ''pulse'', plain ''oxygenSaturation'',
        plain ''weight'', plain ''height'', plain ''recordedAt'', plain ''recordedBy''],
      sc_indexes = []\<rparr>"

definition LabTestSchema :: schema where
  "LabTestSchema =
     \<lparr>sc_model = LabTest,
      sc_paths =
       [required ''hospitalId'', plain ''patientId'', plain ''testName'',
        plain ''testType'', plain ''orderedBy'', plain ''orderedAt'', plain ''status'',
        plain ''result'', plain ''resultDate'', plain ''priority'', plain ''sampleStatus'',
        plain ''technicianId'', plain ''machineId'', plain ''sampleCollectedAt'',
        plain ''sampleCollectedBy'', plain ''rejectionReason'', plain ''startedAt'',
        plain ''completedAt''],
      sc_indexes = []\<rparr>"

definition LabResultSchema :: schema where
  "LabResultSchema =
     \<lparr>sc_model = LabResult,
      sc_paths =
       [required ''testId'', required ''parameterName'', plain ''value'', plain ''unit'',
        plain ''referenceRange'', plain ''isAbnormal'', plain ''notes''],
      sc_indexes = []\<rparr>"

definition InventorySchema :: schema where
  "InventorySchema =
     \<lparr>sc_model = Inventory,
      sc_paths =
       [required ''hospitalId'', plain ''medicationName'', plain ''batchNumber'',
        plain ''quantity'', plain ''unitPrice'', plain ''expiryDate'',
        plain ''manufacturer'', plain ''category'', plain ''addedAt'', plain ''lastUpdated''],
      sc_indexes = []\<rparr>"

definition AppointmentSchema :: schema where
  "AppointmentSchema =
     \<lparr>sc_model = Appointment,
      sc_paths =
       [required ''hospitalId'', plain ''patientId'', plain ''patientName'',
        plain ''phone'', plain ''department'', plain ''doctorId'',
        plain ''appointmentDate'', plain ''appointmentTime'', plain ''status'',
        plain ''notes'', plain ''createdAt''],
      sc_indexes = []\<rparr>"

definition LabInventorySchema :: schema where
  "LabInventorySchema =
     \<lparr>sc_model = LabInventory,
      sc_paths =
       [required ''hospitalId'', required ''itemName'', plain ''batchNumber'',
        plain ''quantity'', plain ''unit'', plain ''expiryDate'', plain ''minLevel'',
        plain ''status'', plain ''addedAt'', plain ''updatedAt''],
      sc_indexes = []\<rparr>"

definition LabTestTypeSchema :: schema where
  "LabTestTypeSchema =
     \<lparr>sc_model = LabTestType,
      sc_paths =
       [required ''hospitalId'', required ''name'', plain ''category'',
        plain ''parameters'', plain ''price'', plain ''turnaroundTime''],
      sc_indexes = []\<rparr>"

definition PrescriptionTemplateSchema :: schema where
  "PrescriptionTemplateSchema =
     \<lparr>sc_model = PrescriptionTemplate,
      sc_paths =
       [required_unique ''hospitalId'', plain ''templateName'', plain ''hospitalName'',
        plain ''hospitalAddress'', plain ''hospitalPhone'', plain ''hospitalEmail'',
        plain ''hospitalLogo'', plain ''doctorNamePosition'', plain ''headerText'',
        plain ''footerText'', plain ''showQRCode'', plain ''showWatermark'',
        plain ''watermarkText'', plain ''fontSize'', plain ''fontFamily'',
        plain ''primaryColor'', plain ''secondaryColor'', plain ''paperSize'',
        plain ''marginTop'', plain ''marginBottom'', plain ''marginLeft'',
        plain ''marginRight'', plain ''showLetterhead'', plain ''showVitals'',
        plain ''showDiagnosis'', plain ''showHistory'', plain ''layoutStyle'',
        plain ''doctorSignature'', plain ''createdAt'', plain ''updatedAt''],
      sc_indexes = []\<rparr>"

definition schemas :: "schema list" where
  "schemas =
     [HospitalSchema, UserSchema, PatientSchema, VitalSchema, LabTestSchema, LabResultSchema,
      InventorySchema, AppointmentSchema, LabInventorySchema, LabTestTypeSchema,
      PrescriptionTemplateSchema]"

text \<open>The unique keys of a schema: its paths marked \<open>unique\<close>, then its unique indexes.\<close>

definition unique_keys :: "schema \<Rightarrow> string list list" where
  "unique_keys sc =
     map (\<lambda>p. [path_name p]) (filter path_unique (sc_paths sc))
     @ map ix_paths (filter ix_unique (sc_indexes sc))"

definition uniqueness_constraints :: "(model_name \<times> string list) list" where
  "uniqueness_constraints = concat (map (\<lambda>sc. map (Pair (sc_model sc)) (unique_keys sc)) schemas)"

section \<open>Reachable stores\<close>

text \<open>
  The stores the server can be in, as far as the users collection goes: it starts
  empty; \<open>User.create\<close> is called directly or by the registration handler; the login
  handler stamps \<open>lastLogin\<close>; no other handler writes the collection.
\<close>

inductive reachable :: "world \<Rightarrow> bool" where
  reachable_init: "users w = [] \<Longrightarrow> reachable w"
| reachable_create: "reachable w \<Longrightarrow> reachable (snd (User_create doc w))"
| reachable_register:
    "reachable w \<Longrightarrow> reachable (snd (POST_hospitals_register au registerValidators b now expiry w))"
| reachable_login: "reachable w \<Longrightarrow> reachable (snd (POST_login au loginValidators ses lb now w))"
| reachable_other: "reachable w \<Longrightarrow> users w' = users w \<Longrightarrow> reachable w'"

text \<open>The invariant of the unique index on users: no two users share hospital and name.\<close>

definition users_unique :: "world \<Rightarrow> bool" where
  "users_unique w = distinct (map user_key (users w))"

section \<open>Example stores\<close>

text \<open>Small stores on which the theorems below are run.\<close>

definition completed_test :: labTest where
  "completed_test =
     \<lparr>t_id = 7, t_hospitalId = 1, t_patientId = Some 3, t_testName = Some ''CBC'',
      t_testType = None, t_orderedBy = Some ''Dr. Test'', t_orderedAt = 1000,
      t_status = ''completed'', t_result = None, t_resultDate = Some 2000,
      t_priority = ''normal'', t_sampleStatus = ''collected'', t_technicianId = None,
      t_machineId = None, t_sampleCollectedAt = None, t_sampleCollectedBy = None,
      t_rejectionReason = None, t_startedAt = None, t_completedAt = Some 2000\<rparr>"

definition old_result :: labResult where
  "old_result =
     \<lparr>r_id = 8, r_testId = 7, r_parameterName = ''Hemoglobin'', r_value = Some ''14.5'',
      r_unit = Some ''g/dL'', r_referenceRange = None, r_isAbnormal = False, r_notes = None\<rparr>"

definition lab_world :: world where
  "lab_world =
     \<lparr>hospitals = [], users = [], patients = [], labTests = [completed_test],
      labResults = [old_result], templates = [], nextOid = 10, faults = []\<rparr>"

definition nameless_result :: resultInput where
  "nameless_result =
     \<lparr>ri_parameterName = None, ri_value = Some ''15.1'', ri_unit = Some ''g/dL'',
      ri_referenceRange = None, ri_isAbnormal = None, ri_notes = None\<rparr>"

definition walk_in :: registerData where
  "walk_in =
     \<lparr>rd_name = Some ''John Doe'', rd_department = None, rd_hospitalId = Some 1,
      rd_doctorId = None, rd_age = Some 30, rd_gender = Some ''Male'',
      rd_phone = Some ''9876543210'', rd_address = None, rd_patientType = None,
      rd_opdIpd = None, rd_reason = Some ''Fever'', rd_vitals = None, rd_prescription = None,
      rd_history = None, rd_cost = None\<rparr>"

definition first_patient :: patient where
  "first_patient = (newPatientDoc walk_in 1 ''General'' 1 1000)\<lparr>p_id := 3\<rparr>"

definition second_patient :: patient where
  "second_patient = (newPatientDoc walk_in 1 ''General'' 2 1500)\<lparr>p_id := 4, p_name := Some ''Ravi Kumar''\<rparr>"

definition other_tenant_patient :: patient where
  "other_tenant_patient =
     (newPatientDoc walk_in 2 ''General'' 1 1200)\<lparr>p_id := 5, p_name := Some ''Jane Roe''\<rparr>"

definition queue_world :: world where
  "queue_world =
     \<lparr>hospitals = [], users = [],
      patients = [first_patient, second_patient, other_tenant_patient],
      labTests = [], labResults = [], templates = [], nextOid = 10, faults = []\<rparr>"

definition pending_request :: labTest where
  "pending_request = (requested_test first_patient 3 4000 queue_world)\<lparr>t_id := 9\<rparr>"

definition requested_world :: world where
  "requested_world = queue_world\<lparr>labTests := [pending_request]\<rparr>"

text \<open>
  Two registrations that overlap: the second event is handled whole between the count
  and the insert of the first. Two prescriptions that overlap in the same way. And a
  store whose only test is dated two days after the clock.
\<close>

definition late_walk_in :: registerData where
  "late_walk_in = walk_in\<lparr>rd_name := Some ''Meera Shah''\<rparr>"

definition overlapping_registrations :: "emitted list \<times> world" where
  "overlapping_registrations =
     register_patient_interleaved walk_in 2000
       (\<lambda>w. snd (register_patient late_walk_in 2001 w)) queue_world"

definition overlapping_prescriptions :: "emitted list \<times> world" where
  "overlapping_prescriptions =
     update_prescription_interleaved utcMidnight 3 (Some ''Advise CBC'') 5000 5001 (\<lambda>w. w)
       (\<lambda>w. snd (update_prescription utcMidnight 3 (Some ''CBC and urine'') 5002 5003 w))
       queue_world"

definition postdated_world :: world where
  "postdated_world =
     queue_world\<lparr>labTests := [pending_request\<lparr>t_orderedAt := 5000 + 2 * msPerDay\<rparr>]\<rparr>"

definition clerk_session :: session where
  "clerk_session =
     \<lparr>s_userId = Some 20, s_hospitalId = Some 1, s_username = Some ''reception1'',
      s_role = Some ''reception''\<rparr>"

definition anonymous :: session where
  "anonymous = \<lparr>s_userId = None, s_hospitalId = None, s_username = None, s_role = None\<rparr>"

text \<open>A random source, and a store in which the first patient has a public token.\<close>

definition demo_entropy :: "nat \<Rightarrow> byte" where
  "demo_entropy k = of_nat (7 * k + 171)"


text \<open>
  A stand-in for \<open>./auth\<close> in which every hospital has the same monthly password, and
  a store whose first hospital has expired while the second, which has the user, is
  active.
\<close>

definition demo_auth :: auth where
  "demo_auth =
     \<lparr>verifyHospitalPassword = (\<lambda>i given. given = ''monthly''),
      comparePassword = (\<lambda>plain hashed. hashed = CHR ''#'' # plain),
      hashPassword = (\<lambda>plain. CHR ''#'' # plain),
      generateHospitalPassword = (\<lambda>i. ''monthly'')\<rparr>"

definition expired_hospital :: hospital where
  "expired_hospital =
     \<lparr>h_id = 1, h_name = ''City Clinic'', h_email = ''city@example.com'', h_phone = None,
      h_address = None, h_subscriptionStatus = ''expired'', h_subscriptionExpiry = None,
      h_createdAt = 100, h_lastLogin = None\<rparr>"

definition active_hospital :: hospital where
  "active_hospital =
     \<lparr>h_id = 2, h_name = ''Lake Hospital'', h_email = ''lake@example.com'', h_phone = None,
      h_address = None, h_subscriptionStatus = ''active'', h_subscriptionExpiry = None,
      h_createdAt = 200, h_lastLogin = None\<rparr>"

definition lake_admin :: user where
  "lake_admin =
     \<lparr>u_id = 21, u_hospitalId = 2, u_username = ''admin'', u_email = None, u_role = ''admin'',
      u_password = ''#secret'', u_createdAt = 200, u_lastLogin = None\<rparr>"

definition login_world :: world where
  "login_world =
     \<lparr>hospitals = [expired_hospital, active_hospital], users = [lake_admin], patients = [],
      labTests = [], labResults = [], templates = [], nextOid = 30, faults = []\<rparr>"

definition active_first_world :: world where
  "active_first_world = login_world\<lparr>hospitals := [active_hospital, expired_hospital]\<rparr>"

definition lake_login :: loginBody where
  "lake_login =
     \<lparr>lb_hospitalPassword = Some ''monthly'', lb_username = Some ''admin'',
      lb_userPassword = Some ''secret''\<rparr>"

section \<open>The driver\<close>

lemma driver_eq: "driver w = (throws_at w 0, w\<lparr>faults := tl (faults w)\<rparr>)"
  by (cases "faults w") (simp_all add: driver_def throws_at_def fault_at_def)

lemma fault_at_tl: "fault_at (tl fs) n = fault_at fs (Suc n)"
  by (cases fs) (simp_all add: fault_at_def)

lemma dbcall_if:
  "dbcall f w =
     (if fault_at (faults w) 0 then (Inl MongoError, w\<lparr>faults := tl (faults w)\<rparr>)
      else f (w\<lparr>faults := tl (faults w)\<rparr>))"
  by (simp add: dbcall_def driver_eq throws_at_def)

lemma find_None_list_ex: "find P xs = None \<longleftrightarrow> \<not> list_ex P xs"
  by (induction xs) auto

lemma dbcall_ok: "\<not> throws_at w 0 \<Longrightarrow> dbcall f w = f (w\<lparr>faults := tl (faults w)\<rparr>)"
  by (simp add: dbcall_def driver_eq)

lemma dbcall_throw: "throws_at w 0 \<Longrightarrow> dbcall f w = (Inl MongoError, w\<lparr>faults := tl (faults w)\<rparr>)"
  by (simp add: dbcall_def driver_eq)

lemma throws_at_tl: "throws_at (w\<lparr>faults := tl (faults w)\<rparr>) n = throws_at w (Suc n)"
  by (simp add: throws_at_def fault_at_tl)

lemma throws_at_frame [simp]:
  "throws_at (w\<lparr>labResults := rs\<rparr>) n = throws_at w n"
  "throws_at (w\<lparr>labTests := ts\<rparr>) n = throws_at w n"
  "throws_at (w\<lparr>patients := ps\<rparr>) n = throws_at w n"
  "throws_at (w\<lparr>users := us\<rparr>) n = throws_at w n"
  "throws_at (w\<lparr>hospitals := hs\<rparr>) n = throws_at w n"
  "throws_at (w\<lparr>nextOid := k\<rparr>) n = throws_at w n"
  by (simp_all add: throws_at_def)

lemma find_update_first:
  "(\<And>x. P x \<Longrightarrow> P (f x)) \<Longrightarrow> find P (update_first P f xs) = map_option f (find P xs)"
  by (induction xs) auto

section \<open>Lab test status\<close>

lemma process_update_id: "t_id (process_update b now t) = t_id t"
  by (simp add: process_update_def Let_def split: option.splits)

lemma sample_update_id: "t_id (sample_update b usr now t) = t_id t"
  by (simp add: sample_update_def Let_def split: option.splits)

lemma process_update_status:
  "t_status (process_update \<lparr>pb_status = Some s, pb_machineId = m\<rparr> now t) = s"
  by (simp add: process_update_def Let_def split: option.splits)

lemma sample_update_status:
  "t_sampleStatus (sample_update \<lparr>sb_status = Some s, sb_rejectionReason = r\<rparr> usr now t) = s"
  by (simp add: sample_update_def Let_def split: option.splits)

lemma POST_lab_process_ok:
  "\<not> throws_at w 0 \<Longrightarrow>
   POST_lab_process i b now w =
     (Response 200 Success,
      w\<lparr>faults := tl (faults w),
        labTests := update_first (\<lambda>t. t_id t = i) (process_update b now) (labTests w)\<rparr>)"
  by (simp add: POST_lab_process_def await_def LabTest_findByIdAndUpdate_def dbcall_ok)

lemma POST_lab_sample_ok:
  "\<not> throws_at w 0 \<Longrightarrow>
   POST_lab_sample ses i b now w =
     (Response 200 Success,
      w\<lparr>faults := tl (faults w),
        labTests := update_first (\<lambda>t. t_id t = i)
          (sample_update b (or_default (s_username ses) ''Unknown'') now) (labTests w)\<rparr>)"
  by (simp add: POST_lab_sample_def Let_def await_def LabTest_findByIdAndUpdate_def dbcall_ok)

text \<open>
  Claim C2. Whatever the stored test \<open>t\<close> (so whatever its status) and whatever the string
  \<open>s\<close> the client sends, \<open>POST /api/lab/tests/:id/process\<close> answers success and the test's
  \<open>status\<close> is then \<open>s\<close>; \<open>POST /api/lab/tests/:id/sample\<close> does the same with
  \<open>sampleStatus\<close>. No string is refused and no transition is checked; the only way to
  an error is a throw of the driver.
\<close>

theorem lab_status_direct_assignment:
  assumes ok: "\<not> throws_at w 0"
    and present: "find (\<lambda>t. t_id t = i) (labTests w) = Some t"
  shows "fst (POST_lab_process i \<lparr>pb_status = Some s, pb_machineId = m\<rparr> now w) = Response 200 Success
       \<and> map_option t_status
            (find (\<lambda>t. t_id t = i)
               (labTests (snd (POST_lab_process i \<lparr>pb_status = Some s, pb_machineId = m\<rparr> now w)))) = Some s
       \<and> fst (POST_lab_sample ses i \<lparr>sb_status = Some s, sb_rejectionReason = r\<rparr> now w) = Response 200 Success
       \<and> map_option t_sampleStatus
            (find (\<lambda>t. t_id t = i)
               (labTests (snd (POST_lab_sample ses i \<lparr>sb_status = Some s, sb_rejectionReason = r\<rparr> now w)))) = Some s"
  using present
  by (simp add: POST_lab_process_ok [OF ok] POST_lab_sample_ok [OF ok] find_update_first
      process_update_id sample_update_id process_update_status sample_update_status)

text \<open>A completed test goes back to \<open>pending\<close>, and its sample to any text at all.\<close>

theorem lab_status_direct_assignment_witness:
  "fst (POST_lab_process 7 \<lparr>pb_status = Some ''pending'', pb_machineId = None\<rparr> 5000 lab_world)
     = Response 200 Success
   \<and> map_option t_status
        (find (\<lambda>t. t_id t = 7)
           (labTests (snd (POST_lab_process 7 \<lparr>pb_status = Some ''pending'', pb_machineId = None\<rparr> 5000 lab_world))))
     = Some ''pending''
   \<and> t_status completed_test = ''completed''"
proof -
  have ok: "\<not> throws_at lab_world 0"
    by (simp add: throws_at_def fault_at_def lab_world_def)
  have present: "find (\<lambda>t. t_id t = 7) (labTests lab_world) = Some completed_test"
    by (simp add: lab_world_def completed_test_def)
  show ?thesis
    using lab_status_direct_assignment [OF ok present, of "''pending''" None 5000]
    by (simp add: completed_test_def)
qed

section \<open>Saving lab results\<close>

lemma deleteMany_ok:
  "\<not> throws_at w 0 \<Longrightarrow>
   LabResult_deleteMany i w =
     (Inr (), w\<lparr>faults := tl (faults w),
                 labResults := filter (\<lambda>r. r_testId r \<noteq> i) (labResults w)\<rparr>)"
  by (simp add: LabResult_deleteMany_def dbcall_ok)

lemma insertMany_invalid:
  "\<not> list_all (\<lambda>d. truthy (d_parameterName d)) docs \<Longrightarrow>
   LabResult_insertMany docs w = (Inl ValidationError, w)"
  by (simp add: LabResult_insertMany_def)

lemma insertMany_throw:
  "list_all (\<lambda>d. truthy (d_parameterName d)) docs \<Longrightarrow> throws_at w 0 \<Longrightarrow>
   LabResult_insertMany docs w = (Inl MongoError, w\<lparr>faults := tl (faults w)\<rparr>)"
  by (simp add: LabResult_insertMany_def dbcall_throw)

lemma insertMany_ok:
  "list_all (\<lambda>d. truthy (d_parameterName d)) docs \<Longrightarrow> \<not> throws_at w 0 \<Longrightarrow>
   LabResult_insertMany docs w =
     (Inr (number_docs (nextOid w) docs),
      w\<lparr>faults := tl (faults w),
        labResults := labResults w @ number_docs (nextOid w) docs,
        nextOid := nextOid w + length docs\<rparr>)"
  by (simp add: LabResult_insertMany_def dbcall_ok Let_def)

lemma results_insert_fails:
  assumes d: "\<not> throws_at w 0"
    and f: "throws_at w 1 \<or> \<not> list_all (\<lambda>d. truthy (d_parameterName d)) (resultDocs i rs)"
  shows "fst (POST_lab_results i (Some rs) now w) =
           Response 500 (Error_thrown
             (if list_all (\<lambda>d. truthy (d_parameterName d)) (resultDocs i rs)
              then MongoError else ValidationError))
       \<and> labResults (snd (POST_lab_results i (Some rs) now w)) =
           filter (\<lambda>r. r_testId r \<noteq> i) (labResults w)
       \<and> labTests (snd (POST_lab_results i (Some rs) now w)) = labTests w"
proof (cases "list_all (\<lambda>d. truthy (d_parameterName d)) (resultDocs i rs)")
  case True
  with f have t: "throws_at (w\<lparr>faults := tl (faults w)\<rparr>) 0"
    by (simp add: throws_at_tl)
  show ?thesis
    using True t
    by (simp add: POST_lab_results_def await_def deleteMany_ok [OF d] insertMany_throw)
next
  case False
  then show ?thesis
    by (simp add: POST_lab_results_def await_def deleteMany_ok [OF d] insertMany_invalid)
qed

lemma results_update_fails:
  assumes d: "\<not> throws_at w 0" and d1: "\<not> throws_at w 1" and t2: "throws_at w 2"
    and v: "list_all (\<lambda>d. truthy (d_parameterName d)) (resultDocs i rs)"
  shows "fst (POST_lab_results i (Some rs) now w) = Response 500 (Error_thrown MongoError)
       \<and> labResults (snd (POST_lab_results i (Some rs) now w)) =
           filter (\<lambda>r. r_testId r \<noteq> i) (labResults w) @ number_docs (nextOid w) (resultDocs i rs)
       \<and> labTests (snd (POST_lab_results i (Some rs) now w)) = labTests w"
proof -
  have a: "\<not> throws_at (w\<lparr>faults := tl (faults w)\<rparr>) 0"
    using d1 by (simp add: throws_at_tl)
  have b: "throws_at (w\<lparr>faults := tl (tl (faults w))\<rparr>) 0"
    using t2 throws_at_tl [of "w\<lparr>faults := tl (faults w)\<rparr>" 0] throws_at_tl [of w 1]
    by (simp add: numeral_2_eq_2)
  show ?thesis
    using v a b
    by (simp add: POST_lab_results_def await_def deleteMany_ok [OF d] insertMany_ok
        LabTest_findByIdAndUpdate_def dbcall_throw)
qed

text \<open>
  Claim C6. \<open>POST /api/lab/tests/:id/results\<close> deletes, inserts and updates in three
  separate writes. Once the delete has gone through: when the insert fails (the driver
  throws, or a document has no \<open>parameterName\<close>) the answer is 500, the old results of
  the test are gone and nothing has replaced them; when the insert goes through and the
  status update throws, the answer is 500, the new results have replaced the old ones
  and the test is not marked completed. Nothing is rolled back.
\<close>

theorem lab_results_not_atomic:
  assumes d: "\<not> throws_at w 0"
  shows "(throws_at w 1 \<or> \<not> list_all (\<lambda>d. truthy (d_parameterName d)) (resultDocs i rs) \<longrightarrow>
            fst (POST_lab_results i (Some rs) now w) =
              Response 500 (Error_thrown
                (if list_all (\<lambda>d. truthy (d_parameterName d)) (resultDocs i rs)
                 then MongoError else ValidationError))
            \<and> labResults (snd (POST_lab_results i (Some rs) now w)) =
                filter (\<lambda>r. r_testId r \<noteq> i) (labResults w)
            \<and> labTests (snd (POST_lab_results i (Some rs) now w)) = labTests w)
       \<and> (\<not> throws_at w 1 \<and> throws_at w 2
            \<and> list_all (\<lambda>d. truthy (d_parameterName d)) (resultDocs i rs) \<longrightarrow>
            fst (POST_lab_results i (Some rs) now w) = Response 500 (Error_thrown MongoError)
            \<and> labResults (snd (POST_lab_results i (Some rs) now w)) =
                filter (\<lambda>r. r_testId r \<noteq> i) (labResults w)
                @ number_docs (nextOid w) (resultDocs i rs)
            \<and> labTests (snd (POST_lab_results i (Some rs) now w)) = labTests w)"
proof (rule conjI)
  show "throws_at w 1 \<or> \<not> list_all (\<lambda>d. truthy (d_parameterName d)) (resultDocs i rs) \<longrightarrow>
          fst (POST_lab_results i (Some rs) now w) =
            Response 500 (Error_thrown
              (if list_all (\<lambda>d. truthy (d_parameterName d)) (resultDocs i rs)
               then MongoError else ValidationError))
          \<and> labResults (snd (POST_lab_results i (Some rs) now w)) =
              filter (\<lambda>r. r_testId r \<noteq> i) (labResults w)
          \<and> labTests (snd (POST_lab_results i (Some rs) now w)) = labTests w"
    using results_insert_fails [OF d, of i rs now] by (rule impI)
next
  show "\<not> throws_at w 1 \<and> throws_at w 2
          \<and> list_all (\<lambda>d. truthy (d_parameterName d)) (resultDocs i rs) \<longrightarrow>
          fst (POST_lab_results i (Some rs) now w) = Response 500 (Error_thrown MongoError)
          \<and> labResults (snd (POST_lab_results i (Some rs) now w)) =
              filter (\<lambda>r. r_testId r \<noteq> i) (labResults w)
              @ number_docs (nextOid w) (resultDocs i rs)
          \<and> labTests (snd (POST_lab_results i (Some rs) now w)) = labTests w"
    using results_update_fails [OF d, of i rs now] by blast
qed

text \<open>
  A result without a name is refused after the old result has been deleted: the
  request fails and the stored result is lost.
\<close>

theorem lab_results_not_atomic_witness:
  "fst (POST_lab_results 7 (Some [nameless_result]) 5000 lab_world)
     = Response 500 (Error_thrown ValidationError)
   \<and> labResults lab_world = [old_result]
   \<and> labResults (snd (POST_lab_results 7 (Some [nameless_result]) 5000 lab_world)) = []"
proof -
  have ok: "\<not> throws_at lab_world 0"
    by (simp add: throws_at_def fault_at_def lab_world_def)
  have bad: "\<not> list_all (\<lambda>d. truthy (d_parameterName d)) (resultDocs 7 [nameless_result])"
    by (simp add: resultDocs_def nameless_result_def)
  show ?thesis
    using lab_results_not_atomic [OF ok, of 7 "[nameless_result]" 5000] bad
    by (simp add: lab_world_def old_result_def)
qed

section \<open>Registering a patient\<close>

lemma register_patient_interleaved_cases:
  "register_patient_interleaved data now between w =
     (if \<not> truthy (rd_name data) \<or> \<not> truthy (map_option trim (rd_name data))
      then ([(Socket, ''patient-registration-error'', Message ''Patient name is required'')], w)
      else if throws_at w 0
      then ([(Socket, ''patient-registration-error'', Thrown MongoError)], w\<lparr>faults := tl (faults w)\<rparr>)
      else if throws_at (between (w\<lparr>faults := tl (faults w)\<rparr>)) 0
      then ([(Socket, ''patient-registration-error'', Thrown MongoError)],
            (between (w\<lparr>faults := tl (faults w)\<rparr>))
              \<lparr>faults := tl (faults (between (w\<lparr>faults := tl (faults w)\<rparr>)))\<rparr>)
      else ([(Room ''doctors'', ''patient-registered'',
               Patient_doc (registered_patient data now w (between (w\<lparr>faults := tl (faults w)\<rparr>)))),
             (Room ''reception'', ''patient-registered'',
               Patient_doc (registered_patient data now w (between (w\<lparr>faults := tl (faults w)\<rparr>)))),
             (Everyone, ''queue-updated'',
               Queue_patient (registered_patient data now w (between (w\<lparr>faults := tl (faults w)\<rparr>)))),
             (Socket, ''patient-registered'',
               Patient_doc (registered_patient data now w (between (w\<lparr>faults := tl (faults w)\<rparr>))))],
            (between (w\<lparr>faults := tl (faults w)\<rparr>))
              \<lparr>faults := tl (faults (between (w\<lparr>faults := tl (faults w)\<rparr>))),
                patients := patients (between (w\<lparr>faults := tl (faults w)\<rparr>))
                  @ [registered_patient data now w (between (w\<lparr>faults := tl (faults w)\<rparr>))],
                nextOid := Suc (nextOid (between (w\<lparr>faults := tl (faults w)\<rparr>)))\<rparr>))"
  by (simp add: register_patient_interleaved_def Let_def await_def Patient_countDocuments_def
      Patient_create_def dbcall_if throws_at_def registered_patient_def token_counter_def)

lemma register_patient_cases:
  "register_patient data now w =
     (if \<not> truthy (rd_name data) \<or> \<not> truthy (map_option trim (rd_name data))
      then ([(Socket, ''patient-registration-error'', Message ''Patient name is required'')], w)
      else if throws_at w 0
      then ([(Socket, ''patient-registration-error'', Thrown MongoError)], w\<lparr>faults := tl (faults w)\<rparr>)
      else if throws_at w 1
      then ([(Socket, ''patient-registration-error'', Thrown MongoError)], w\<lparr>faults := tl (tl (faults w))\<rparr>)
      else ([(Room ''doctors'', ''patient-registered'', Patient_doc (registered_patient data now w w)),
             (Room ''reception'', ''patient-registered'', Patient_doc (registered_patient data now w w)),
             (Everyone, ''queue-updated'', Queue_patient (registered_patient data now w w)),
             (Socket, ''patient-registered'', Patient_doc (registered_patient data now w w))],
            w\<lparr>faults := tl (tl (faults w)),
              patients := patients w @ [registered_patient data now w w],
              nextOid := Suc (nextOid w)\<rparr>))"
  by (simp add: register_patient_def register_patient_interleaved_cases throws_at_def fault_at_tl
      registered_patient_def)

lemma registered_patient_fields:
  "p_token (registered_patient data now w wc) =
     Some (token_counter (case rd_hospitalId data of None \<Rightarrow> fallbackHospitalId | Some h \<Rightarrow> h)
             (or_default (rd_department data) ''General'') w + 1)"
  "p_hospitalId (registered_patient data now w wc) =
     (case rd_hospitalId data of None \<Rightarrow> fallbackHospitalId | Some h \<Rightarrow> h)"
  "p_department (registered_patient data now w wc) = Some (or_default (rd_department data) ''General'')"
  by (simp_all add: registered_patient_def newPatientDoc_def Let_def)

text \<open>
  Claim C3, as amended. Let \<open>register-patient\<close> succeed, that is emit
  \<open>patient-registered\<close> to the client, having counted in the store \<open>w\<close> and inserted
  in the store \<open>wc\<close> that the events handled in between have left. The payload is the
  one document the handler has added; it belongs to the hospital and department of the
  event (with their fallbacks); its token is the counter of that hospital and department
  as it was in \<open>w\<close>, plus one; and the insert raises the counter by exactly one. When
  nothing in between has changed that counter, and so when registrations do not
  overlap, the token is the counter just before the insert plus one.
\<close>

theorem register_patient_token:
  assumes run: "register_patient_interleaved data now between w = (evs, w')"
    and success: "(Socket, ''patient-registered'', pl) \<in> set evs"
    and hid: "hospitalId = (case rd_hospitalId data of None \<Rightarrow> fallbackHospitalId | Some h \<Rightarrow> h)"
    and dept: "dept = or_default (rd_department data) ''General''"
    and inserted: "wc = between (w\<lparr>faults := tl (faults w)\<rparr>)"
  shows "\<exists>p. pl = Patient_doc p \<and> patients w' = patients wc @ [p]
           \<and> p_hospitalId p = hospitalId \<and> p_department p = Some dept
           \<and> p_token p = Some (token_counter hospitalId dept w + 1)
           \<and> token_counter hospitalId dept w' = token_counter hospitalId dept wc + 1
           \<and> (token_counter hospitalId dept wc = token_counter hospitalId dept w \<longrightarrow>
                p_token p = Some (token_counter hospitalId dept wc + 1)
                \<and> token_counter hospitalId dept w' = token_counter hospitalId dept w + 1)"
proof -
  let ?p = "registered_patient data now w wc"
  from run success
  have ok: "evs = [(Room ''doctors'', ''patient-registered'', Patient_doc ?p),
                   (Room ''reception'', ''patient-registered'', Patient_doc ?p),
                   (Everyone, ''queue-updated'', Queue_patient ?p),
                   (Socket, ''patient-registered'', Patient_doc ?p)]
            \<and> patients w' = patients wc @ [?p]"
    by (auto simp: register_patient_interleaved_cases inserted split: if_splits)
  with success have pl: "pl = Patient_doc ?p"
    by auto
  have count: "token_counter hospitalId dept w' = token_counter hospitalId dept wc + 1"
    using ok by (simp add: token_counter_def registered_patient_fields hid dept)
  have token: "p_token ?p = Some (token_counter hospitalId dept w + 1)"
    by (simp add: registered_patient_fields hid dept)
  show ?thesis
    using pl ok count token
    by (intro exI [of _ ?p]) (simp add: registered_patient_fields hid dept)
qed

lemma queue_counter: "token_counter 1 ''General'' queue_world = 2"
  by (simp add: token_counter_def queue_world_def first_patient_def second_patient_def
      other_tenant_patient_def newPatientDoc_def)

lemma walk_in_named: "truthy (rd_name walk_in)" "truthy (map_option trim (rd_name walk_in))"
  "truthy (rd_name late_walk_in)" "truthy (map_option trim (rd_name late_walk_in))"
  by (simp add: walk_in_def, code_simp, simp add: late_walk_in_def, code_simp)

text \<open>
  Hospital 1 has two patients in General (and hospital 2 has one). Handled alone, the
  walk-in is given token 3, and the counter of hospital 1 goes from 2 to 3.
\<close>

theorem register_patient_token_witness:
  "token_counter 1 ''General'' queue_world = 2
   \<and> (\<exists>p. patients (snd (register_patient walk_in 2000 queue_world)) = patients queue_world @ [p]
          \<and> p_token p = Some 3)
   \<and> token_counter 1 ''General'' (snd (register_patient walk_in 2000 queue_world)) = 3"
proof -
  let ?r = "register_patient_interleaved walk_in 2000 (\<lambda>w. w) queue_world"
  have same: "register_patient walk_in 2000 queue_world = ?r"
    by (simp add: register_patient_def)
  have run: "?r = (fst ?r, snd ?r)"
    by simp
  have quiet: "\<not> throws_at queue_world 0" "\<not> throws_at (queue_world\<lparr>faults := tl (faults queue_world)\<rparr>) 0"
    by (simp_all add: throws_at_def fault_at_def queue_world_def)
  have success: "(Socket, ''patient-registered'',
                  Patient_doc (registered_patient walk_in 2000 queue_world
                                 (queue_world\<lparr>faults := tl (faults queue_world)\<rparr>)))
                   \<in> set (fst ?r)"
    using walk_in_named quiet by (simp add: register_patient_interleaved_cases)
  have hid: "(1::nat) = (case rd_hospitalId walk_in of None \<Rightarrow> fallbackHospitalId | Some h \<Rightarrow> h)"
    by (simp add: walk_in_def)
  have dept: "''General'' = or_default (rd_department walk_in) ''General''"
    by (simp add: walk_in_def or_default_def)
  have wc: "patients (queue_world\<lparr>faults := tl (faults queue_world)\<rparr>) = patients queue_world"
    "token_counter 1 ''General'' (queue_world\<lparr>faults := tl (faults queue_world)\<rparr>)
       = token_counter 1 ''General'' queue_world"
    by (simp_all add: token_counter_def)
  show ?thesis
    using register_patient_token [OF run success hid dept refl] queue_counter wc
    by (auto simp: same)
qed

text \<open>
  Claim C3 as stated fails when registrations overlap. Both events count two patients
  before either inserts: both patients are given token 3, and the counter of hospital 1
  goes from 2 to 4. The patient inserted last has token 3 where the counter before its
  insert was 3.
\<close>

theorem register_patient_token_counterexample:
  "token_counter 1 ''General'' queue_world = 2
   \<and> map p_name (drop 3 (patients (snd overlapping_registrations)))
       = [Some ''Meera Shah'', Some ''John Doe'']
   \<and> map p_hospitalId (drop 3 (patients (snd overlapping_registrations))) = [1, 1]
   \<and> map p_department (drop 3 (patients (snd overlapping_registrations)))
       = [Some ''General'', Some ''General'']
   \<and> map p_token (drop 3 (patients (snd overlapping_registrations))) = [Some 3, Some 3]
   \<and> token_counter 1 ''General'' (snd overlapping_registrations) = 4
   \<and> List.member (map fst (fst overlapping_registrations)) Socket
   \<and> map (fst \<circ> snd) (fst overlapping_registrations)
       = [''patient-registered'', ''patient-registered'', ''queue-updated'', ''patient-registered'']"
proof -
  have quiet: "fault_at [] 0 = False" "fault_at [] (Suc 0) = False"
    by (simp_all add: fault_at_def)
  show ?thesis
    using walk_in_named
    by (simp add: overlapping_registrations_def register_patient_interleaved_cases
        register_patient_cases throws_at_def quiet queue_counter registered_patient_def
        token_counter_def queue_world_def first_patient_def second_patient_def
        other_tenant_patient_def newPatientDoc_def walk_in_def late_walk_in_def Let_def
        or_default_def fallbackHospitalId_def fault_at_tl)
qed

section \<open>Lab requests from prescriptions\<close>

lemma startsWith_iff: "startsWith s k \<longleftrightarrow> (\<exists>after. s = k @ after)"
  by (induction s k rule: startsWith.induct) auto

lemma includes_str_iff: "includes_str s k \<longleftrightarrow> (\<exists>before after. s = before @ k @ after)"
proof (induction s)
  case Nil
  then show ?case by auto
next
  case (Cons c cs)
  show ?case
  proof
    assume "includes_str (c # cs) k"
    then consider "startsWith (c # cs) k" | "includes_str cs k" by auto
    then show "\<exists>before after. c # cs = before @ k @ after"
    proof cases
      case 1
      then obtain after where "c # cs = k @ after" by (auto simp: startsWith_iff)
      then have "c # cs = [] @ k @ after" by simp
      then show ?thesis by blast
    next
      case 2
      then obtain before after where "cs = before @ k @ after" using Cons.IH by auto
      then have "c # cs = (c # before) @ k @ after" by simp
      then show ?thesis by blast
    qed
  next
    assume "\<exists>before after. c # cs = before @ k @ after"
    then obtain before after where e: "c # cs = before @ k @ after" by auto
    show "includes_str (c # cs) k"
    proof (cases before)
      case Nil
      with e have "startsWith (c # cs) k" by (auto simp: startsWith_iff)
      then show ?thesis by simp
    next
      case (Cons b bs)
      with e have "cs = bs @ k @ after" by simp
      then have "includes_str cs k" using Cons.IH by blast
      then show ?thesis by simp
    qed
  qed
qed

lemma hasLabRequest_iff:
  "hasLabRequest text \<longleftrightarrow> (\<exists>keyword \<in> set labKeywords. contains_ci text keyword)"
proof -
  have "includes_str (toLowerCase text) k \<longleftrightarrow> contains_ci text k" for k
  proof
    assume "includes_str (toLowerCase text) k"
    then obtain before after where "map lower_char text = before @ k @ after"
      by (auto simp: includes_str_iff toLowerCase_def)
    then obtain b rest where 1: "text = b @ rest" "k @ after = map lower_char rest"
      unfolding map_eq_append_conv by blast
    then obtain m a where 2: "rest = m @ a" "k = map lower_char m"
      unfolding append_eq_map_conv by blast
    from 1 2 have "text = b @ m @ a" "map lower_char m = k"
      by simp_all
    then show "contains_ci text k"
      by (auto simp: contains_ci_def toLowerCase_def)
  next
    assume "contains_ci text k"
    then obtain b m a where "text = b @ m @ a" "toLowerCase m = k"
      by (auto simp: contains_ci_def)
    then have "toLowerCase text = toLowerCase b @ k @ toLowerCase a"
      by (auto simp: toLowerCase_def)
    then show "includes_str (toLowerCase text) k"
      using includes_str_iff by blast
  qed
  then show ?thesis
    by (simp add: hasLabRequest_def list_ex_iff)
qed

lemma update_prescription_interleaved_run:
  assumes patient: "find (\<lambda>p. p_id p = i) (patients w) = Some stored"
    and kw: "hasLabRequest rx"
    and d0: "\<not> throws_at w 0"
    and looked: "wl = before_lookup (snd (Patient_findByIdAndUpdate_new i (\<lambda>p. p\<lparr>p_prescription := Some rx\<rparr>) w))"
    and d1: "\<not> throws_at wl 0"
    and created: "wc = before_create (snd (LabTest_findOne (pendingSince i (localMidnight now)) wl))"
    and d2: "\<not> throws_at wc 0"
  shows "snd (update_prescription_interleaved localMidnight i (Some rx) now orderedNow before_lookup before_create w) =
           (if list_ex (pendingSince i (localMidnight now)) (labTests wl)
            then wl\<lparr>faults := tl (faults wl)\<rparr>
            else wc\<lparr>faults := tl (faults wc),
                   labTests := labTests wc @ [requested_test (stored\<lparr>p_prescription := Some rx\<rparr>) i orderedNow wc],
                   nextOid := Suc (nextOid wc)\<rparr>)"
proof -
  define w1 where "w1 = snd (Patient_findByIdAndUpdate_new i (\<lambda>p. p\<lparr>p_prescription := Some rx\<rparr>) w)"
  define w3 where "w3 = snd (LabTest_findOne (pendingSince i (localMidnight now)) wl)"
  have s1: "Patient_findByIdAndUpdate_new i (\<lambda>p. p\<lparr>p_prescription := Some rx\<rparr>) w
              = (Inr (Some (stored\<lparr>p_prescription := Some rx\<rparr>)), w1)"
    unfolding w1_def using d0 patient
    by (simp add: Patient_findByIdAndUpdate_new_def dbcall_if throws_at_def)
  have b1: "before_lookup w1 = wl"
    by (simp add: looked w1_def)
  have s2: "LabTest_findOne (pendingSince i (localMidnight now)) wl
              = (Inr (find (pendingSince i (localMidnight now)) (labTests wl)), w3)"
    and w3: "w3 = wl\<lparr>faults := tl (faults wl)\<rparr>"
    unfolding w3_def using d1 by (simp_all add: LabTest_findOne_def dbcall_if throws_at_def)
  have b2: "before_create w3 = wc"
    by (simp add: created w3_def)
  have s3: "LabTest_create doc wc =
              (Inr (doc\<lparr>t_id := nextOid wc\<rparr>),
               wc\<lparr>faults := tl (faults wc), labTests := labTests wc @ [doc\<lparr>t_id := nextOid wc\<rparr>],
                  nextOid := Suc (nextOid wc)\<rparr>)" for doc
    using d2 by (simp add: LabTest_create_def dbcall_if throws_at_def Let_def)
  show ?thesis
  proof (cases "find (pendingSince i (localMidnight now)) (labTests wl)")
    case None
    then have "\<not> list_ex (pendingSince i (localMidnight now)) (labTests wl)"
      by (simp add: find_None_list_ex)
    then show ?thesis
      using None kw
      by (simp add: update_prescription_interleaved_def await_def s1 b1 s2 b2 s3 requested_test_def)
  next
    case (Some t)
    then have "list_ex (pendingSince i (localMidnight now)) (labTests wl)"
      using find_None_list_ex [of "pendingSince i (localMidnight now)" "labTests wl"] by simp
    then show ?thesis
      using Some kw
      by (simp add: update_prescription_interleaved_def await_def s1 b1 s2 w3)
  qed
qed

lemma requested_test_fields:
  "t_status (requested_test p i orderedNow w) = ''pending''"
  "t_patientId (requested_test p i orderedNow w) = Some i"
  "t_orderedAt (requested_test p i orderedNow w) = orderedNow"
  by (simp_all add: requested_test_def newLabTestDoc_def)

text \<open>
  Claim C8, as amended. Take an \<open>update-prescription\<close> event whose text \<open>rx\<close> contains one of
  the nine keywords, case ignored, for a patient that exists, and let its three
  database calls go through; \<open>wl\<close> is the store in which the handler looks for a pending
  test and \<open>wc\<close> the store in which it would create one. If \<open>wl\<close> holds no pending test
  of the patient ordered since the local midnight of today, the handler adds exactly one
  test to \<open>wc\<close>, pending and of that patient. If \<open>wl\<close> holds one, the handler writes
  nothing more. So when no test is written between the lookup and the creation, the
  handler does not bring the number of such tests of the patient above one.
\<close>

theorem prescription_lab_request_once:
  assumes keyword: "\<exists>keyword \<in> set labKeywords. contains_ci rx keyword"
    and patient: "find (\<lambda>p. p_id p = i) (patients w) = Some stored"
    and d0: "\<not> throws_at w 0"
    and looked: "wl = before_lookup (snd (Patient_findByIdAndUpdate_new i (\<lambda>p. p\<lparr>p_prescription := Some rx\<rparr>) w))"
    and d1: "\<not> throws_at wl 0"
    and created: "wc = before_create (snd (LabTest_findOne (pendingSince i (localMidnight now)) wl))"
    and d2: "\<not> throws_at wc 0"
    and run: "w' = snd (update_prescription_interleaved localMidnight i (Some rx) now orderedNow
                          before_lookup before_create w)"
  shows "(\<not> list_ex (pendingSince i (localMidnight now)) (labTests wl) \<longrightarrow>
            (\<exists>t. labTests w' = labTests wc @ [t] \<and> t_status t = ''pending''
                  \<and> t_patientId t = Some i \<and> t_orderedAt t = orderedNow))
       \<and> (list_ex (pendingSince i (localMidnight now)) (labTests wl) \<longrightarrow>
            w' = wl\<lparr>faults := tl (faults wl)\<rparr>)
       \<and> (labTests wc = labTests wl
            \<and> length (filter (pendingSince i (localMidnight now)) (labTests wl)) \<le> 1 \<longrightarrow>
            length (filter (pendingSince i (localMidnight now)) (labTests w')) \<le> 1)"
proof -
  have kw: "hasLabRequest rx"
    using keyword by (simp add: hasLabRequest_iff)
  let ?t = "requested_test (stored\<lparr>p_prescription := Some rx\<rparr>) i orderedNow wc"
  have result: "w' =
                 (if list_ex (pendingSince i (localMidnight now)) (labTests wl)
                  then wl\<lparr>faults := tl (faults wl)\<rparr>
                  else wc\<lparr>faults := tl (faults wc), labTests := labTests wc @ [?t],
                         nextOid := Suc (nextOid wc)\<rparr>)"
    using update_prescription_interleaved_run [where before_lookup = before_lookup and before_create = before_create
        and wl = wl and wc = wc and w = w and i = i and rx = rx and stored = stored
        and localMidnight = localMidnight and now = now and orderedNow = orderedNow]
      patient kw d0 looked d1 created d2
    by (simp add: run)
  have none: "filter (pendingSince i (localMidnight now)) (labTests wl) = []"
    if "\<not> list_ex (pendingSince i (localMidnight now)) (labTests wl)"
    using that by (simp add: filter_empty_conv list_ex_iff)
  show ?thesis
  proof (cases "list_ex (pendingSince i (localMidnight now)) (labTests wl)")
    case True
    then show ?thesis by (simp add: result)
  next
    case False
    then show ?thesis by (auto simp: result none requested_test_fields)
  qed
qed

lemma advise_cbc:
  "\<exists>keyword \<in> set labKeywords. contains_ci ''Advise CBC'' keyword"
  "\<exists>keyword \<in> set labKeywords. contains_ci ''CBC and urine'' keyword"
proof -
  have "hasLabRequest ''Advise CBC''" "hasLabRequest ''CBC and urine''"
    by code_simp+
  then show "\<exists>keyword \<in> set labKeywords. contains_ci ''Advise CBC'' keyword"
    "\<exists>keyword \<in> set labKeywords. contains_ci ''CBC and urine'' keyword"
    by (simp_all add: hasLabRequest_iff)
qed

text \<open>
  Handled alone on a server in UTC: a first request for a CBC creates the pending
  test; the same request, once that test is in the store, creates nothing.
\<close>

theorem prescription_lab_request_once_witness:
  "(\<exists>t. labTests (snd (update_prescription utcMidnight 3 (Some ''Advise CBC'') 5000 5001 queue_world)) = [t]
        \<and> t_status t = ''pending'' \<and> t_patientId t = Some 3)
   \<and> labTests (snd (update_prescription utcMidnight 3 (Some ''Advise CBC'') 5000 5001 requested_world))
       = [pending_request]"
proof -
  have p1: "find (\<lambda>p. p_id p = 3) (patients queue_world) = Some first_patient"
    by (simp add: queue_world_def first_patient_def)
  have p2: "find (\<lambda>p. p_id p = 3) (patients requested_world) = Some first_patient"
    by (simp add: requested_world_def queue_world_def first_patient_def)
  have q1: "faults queue_world = []" "labTests queue_world = []"
    by (simp_all add: queue_world_def)
  have q2: "faults requested_world = []" "labTests requested_world = [pending_request]"
    by (simp_all add: requested_world_def queue_world_def)
  have quiet: "\<not> throws_at v 0" if "faults v = []" for v
    using that by (simp add: throws_at_def fault_at_def)
  have since: "pendingSince 3 (utcMidnight 5000) pending_request"
    by (simp add: pendingSince_def pending_request_def requested_test_def newLabTestDoc_def
        utcMidnight_def msPerDay_def)
  let ?u1 = "snd (Patient_findByIdAndUpdate_new 3 (\<lambda>p. p\<lparr>p_prescription := Some ''Advise CBC''\<rparr>) queue_world)"
  let ?l1 = "snd (LabTest_findOne (pendingSince 3 (utcMidnight 5000)) ?u1)"
  let ?u2 = "snd (Patient_findByIdAndUpdate_new 3 (\<lambda>p. p\<lparr>p_prescription := Some ''Advise CBC''\<rparr>) requested_world)"
  let ?l2 = "snd (LabTest_findOne (pendingSince 3 (utcMidnight 5000)) ?u2)"
  have u1: "faults ?u1 = []" "labTests ?u1 = []"
    by (simp_all add: Patient_findByIdAndUpdate_new_def dbcall_if q1 fault_at_def)
  have l1: "faults ?l1 = []" "labTests ?l1 = []"
    by (simp_all add: LabTest_findOne_def dbcall_if u1 fault_at_def)
  have u2: "faults ?u2 = []" "labTests ?u2 = [pending_request]"
    by (simp_all add: Patient_findByIdAndUpdate_new_def dbcall_if q2 fault_at_def)
  have l2: "faults ?l2 = []"
    by (simp add: LabTest_findOne_def dbcall_if u2 fault_at_def)
  have n1: "\<not> throws_at queue_world 0" "\<not> throws_at ?u1 0" "\<not> throws_at ?l1 0"
    using quiet q1(1) u1(1) l1(1) by blast+
  have n2: "\<not> throws_at requested_world 0" "\<not> throws_at ?u2 0" "\<not> throws_at ?l2 0"
    using quiet q2(1) u2(1) l2 by blast+
  have a: "\<exists>t. labTests (snd (update_prescription utcMidnight 3 (Some ''Advise CBC'') 5000 5001 queue_world)) = [t]
             \<and> t_status t = ''pending'' \<and> t_patientId t = Some 3"
    using prescription_lab_request_once [where before_lookup = "\<lambda>w. w" and before_create = "\<lambda>w. w"
        and rx = "''Advise CBC''" and i = 3 and w = queue_world and stored = first_patient
        and localMidnight = utcMidnight and now = 5000 and orderedNow = 5001
        and wl = "?u1" and wc = "?l1" and w' = "snd (update_prescription utcMidnight 3 (Some ''Advise CBC'') 5000 5001 queue_world)"]
      advise_cbc(1) p1 n1
    by (auto simp: update_prescription_def u1 l1)
  have b: "labTests (snd (update_prescription utcMidnight 3 (Some ''Advise CBC'') 5000 5001 requested_world))
             = [pending_request]"
    using prescription_lab_request_once [where before_lookup = "\<lambda>w. w" and before_create = "\<lambda>w. w"
        and rx = "''Advise CBC''" and i = 3 and w = requested_world and stored = first_patient
        and localMidnight = utcMidnight and now = 5000 and orderedNow = 5001
        and wl = "?u2" and wc = "?l2" and w' = "snd (update_prescription utcMidnight 3 (Some ''Advise CBC'') 5000 5001 requested_world)"]
      advise_cbc(1) p2 n2 since
    by (simp add: update_prescription_def u2)
  show ?thesis
    using a b by blast
qed

text \<open>
  Claim C8 as stated fails in three ways. Two events for patient 3 that overlap both
  find no pending test and both create one: two pending tests of that patient on the
  same day. An event for a patient that does not exist creates nothing although no
  pending test exists. And a pending test dated two days ahead, which is not of the
  same day, keeps the handler from creating one.
\<close>

theorem prescription_lab_request_once_counterexample:
  "length (filter (same_day_pending utcMidnight 5000 3) (labTests (snd overlapping_prescriptions))) = 2
   \<and> labTests queue_world = []
   \<and> 99 \<notin> set (map p_id (patients queue_world))
   \<and> labTests (snd (update_prescription utcMidnight 99 (Some ''Advise CBC'') 5000 5001 queue_world)) = []
   \<and> \<not> list_ex (same_day_pending utcMidnight 5000 3) (labTests postdated_world)
   \<and> labTests (snd (update_prescription utcMidnight 3 (Some ''Advise CBC'') 5000 5001 postdated_world))
       = labTests postdated_world"
proof -
  have kw: "hasLabRequest ''Advise CBC''" "hasLabRequest ''CBC and urine''"
    by code_simp+
  have quiet: "fault_at [] 0 = False"
    by (simp add: fault_at_def)
  have a: "length (filter (same_day_pending utcMidnight 5000 3)
             (labTests (snd overlapping_prescriptions))) = 2"
    using kw
    by (simp add: overlapping_prescriptions_def update_prescription_def
        update_prescription_interleaved_def await_def Patient_findByIdAndUpdate_new_def
        LabTest_findOne_def LabTest_create_def dbcall_if quiet Let_def queue_world_def
        first_patient_def second_patient_def other_tenant_patient_def newPatientDoc_def
        newLabTestDoc_def pendingSince_def same_day_pending_def utcMidnight_def msPerDay_def)
  have b: "labTests queue_world = []" "99 \<notin> set (map p_id (patients queue_world))"
    by (simp_all add: queue_world_def first_patient_def second_patient_def other_tenant_patient_def)
  have c: "labTests (snd (update_prescription utcMidnight 99 (Some ''Advise CBC'') 5000 5001 queue_world)) = []"
    by (simp add: update_prescription_def update_prescription_interleaved_def await_def
        Patient_findByIdAndUpdate_new_def dbcall_if quiet queue_world_def first_patient_def
        second_patient_def other_tenant_patient_def)
  have d: "\<not> list_ex (same_day_pending utcMidnight 5000 3) (labTests postdated_world)"
    by (simp add: postdated_world_def same_day_pending_def pending_request_def utcMidnight_def
        msPerDay_def)
  have e: "labTests (snd (update_prescription utcMidnight 3 (Some ''Advise CBC'') 5000 5001 postdated_world))
             = labTests postdated_world"
    using kw
    by (simp add: update_prescription_def update_prescription_interleaved_def await_def
        Patient_findByIdAndUpdate_new_def LabTest_findOne_def dbcall_if quiet postdated_world_def
        queue_world_def first_patient_def second_patient_def other_tenant_patient_def
        pending_request_def requested_test_def newLabTestDoc_def pendingSince_def utcMidnight_def
        msPerDay_def)
  show ?thesis
    using a b c d e by blast
qed

section \<open>Errors in socket handlers\<close>

text \<open>
  What the four handlers emit when their first database call throws: the two that
  report to the client, and the two that only log.
\<close>

lemma socket_handlers_first_throw:
  assumes "throws_at w 0"
  shows "fst (register_patient data now w) =
           [(Socket, ''patient-registration-error'',
             (if \<not> truthy (rd_name data) \<or> \<not> truthy (map_option trim (rd_name data))
              then Message ''Patient name is required'' else Thrown MongoError))]"
    and "fst (create_lab_request patientId testName doctorId now w) =
           [(Socket, ''lab-request-created'', Lab_thrown MongoError)]"
    and "fst (move_patient d w) = []"
    and "fst (update_prescription localMidnight i prescription now orderedNow w) = []"
  using assms
  by (simp_all add: register_patient_cases create_lab_request_def move_patient_def
      update_prescription_def update_prescription_interleaved_def await_def Patient_findById_def
      Patient_findOne_def Patient_findByIdAndUpdate_new_def dbcall_if throws_at_def)

text \<open>
  Claim C5. The claim fails for \<open>move-patient\<close> and \<open>update-prescription\<close>: their \<open>catch\<close>
  only logs. Here the first database call of each throws, and nothing at all is
  emitted, so the client that sent the event is told nothing (whatever the calendar
  \<open>localMidnight\<close> of the server).
\<close>

theorem socket_errors_not_reported:
  "fst (move_patient \<lparr>mv_id = 3, mv_status = Some ''pharmacy'', mv_doctorId = None,
                       mv_pharmacyState = None\<rparr> (queue_world\<lparr>faults := [True]\<rparr>)) = []
   \<and> fst (update_prescription localMidnight 3 (Some ''Paracetamol 500mg'') 5000 5001
            (queue_world\<lparr>faults := [True]\<rparr>)) = []"
  by (simp add: move_patient_def update_prescription_def update_prescription_interleaved_def
      await_def Patient_findById_def Patient_findOne_def Patient_findByIdAndUpdate_new_def
      dbcall_if fault_at_def)

section \<open>Tenant isolation of patient reads\<close>

text \<open>
  With a hospital in the session, the listing and the read by id answer only with
  patients of that hospital.
\<close>

lemma Patient_find_page_matches:
  assumes "fst (Patient_find_page query skip limit w) = Inr found"
  shows "set found \<subseteq> {p. query p}"
proof -
  let ?all = "rev (sort_key (\<lambda>p. int (p_id p)) (filter query (patients w)))"
  have all: "set ?all \<subseteq> {p. query p}"
    by auto
  have "found = drop (nat skip) ?all \<or> found = take limit (drop (nat skip) ?all)"
    using assms by (auto simp: Patient_find_page_def dbcall_if Let_def split: if_splits)
  then have "set found \<subseteq> set ?all"
    using set_drop_subset [of "nat skip" ?all] set_take_subset [of limit "drop (nat skip) ?all"]
    by auto
  with all show ?thesis
    by blast
qed

lemma GET_patients_found:
  assumes "fst (GET_patients ses q w) = Response 200 (Patient_page found pg)"
  shows "\<exists>skip limit w1. fst (Patient_find_page (patients_query ses (q_phone q)) skip limit w1) = Inr found"
proof -
  let ?query = "patients_query ses (q_phone q)"
  let ?limit = "case q_limit q of None \<Rightarrow> 50 | Some n \<Rightarrow> n"
  let ?skip = "(int (case q_page q of None \<Rightarrow> 1 | Some n \<Rightarrow> n) - 1) * int ?limit"
  obtain r1 w1 where c: "Patient_countDocuments ?query w = (r1, w1)"
    by (cases "Patient_countDocuments ?query w")
  obtain r2 w2 where f: "Patient_find_page ?query ?skip ?limit w1 = (r2, w2)"
    by (cases "Patient_find_page ?query ?skip ?limit w1")
  have "r2 = Inr found"
    using assms c f
    by (cases r1; cases r2) (simp_all add: GET_patients_def Let_def await_def)
  with f show ?thesis
    by (metis fst_conv)
qed

lemma GET_patients_own_hospital:
  assumes "s_hospitalId ses = Some h"
    and "fst (GET_patients ses q w) = Response 200 (Patient_page found pg)"
  shows "list_all (\<lambda>p. p_hospitalId p = h) found"
proof -
  obtain skip limit w1
    where "fst (Patient_find_page (patients_query ses (q_phone q)) skip limit w1) = Inr found"
    using GET_patients_found [OF assms(2)] by blast
  then have "set found \<subseteq> {p. patients_query ses (q_phone q) p}"
    by (rule Patient_find_page_matches)
  then show ?thesis
    using assms(1) by (auto simp: list_all_iff patients_query_def)
qed

lemma GET_patient_own_hospital:
  assumes "s_hospitalId ses = Some h"
    and "fst (GET_patient ses i w) = Response 200 (One_patient p)"
  shows "p_hospitalId p = h"
proof -
  have "find (\<lambda>p. p_id p = i \<and> p_hospitalId p = h) ps = Some p \<Longrightarrow> p_hospitalId p = h" for ps
    by (auto simp: find_Some_iff)
  then show ?thesis
    using assms
    by (auto simp: GET_patient_def await_def Patient_findOne_def dbcall_if
        split: if_splits option.splits)
qed

text \<open>
  Claim C1. The claim fails on the two cases it names. \<open>GET /api/export\<close> never looks
  at the session: a session of hospital 1 is sent the row of a patient of hospital 2.
  \<open>GET /api/patients\<close> and \<open>GET /api/patients/:id\<close> filter by hospital only when the
  session has one: a request without a login is sent the patients of every hospital.
\<close>

theorem patient_reads_cross_tenants:
  "s_hospitalId clerk_session = Some 1
   \<and> p_hospitalId other_tenant_patient = 2
   \<and> fst (GET_export clerk_session (Some ''month'') 0 0 queue_world) =
       Response 200 (Workbook [formattedRow second_patient, formattedRow other_tenant_patient,
                                formattedRow first_patient])
   \<and> fst (GET_patients anonymous \<lparr>q_phone = None, q_page = None, q_limit = None\<rparr> queue_world) =
       Response 200 (Patient_page [other_tenant_patient, second_patient, first_patient]
                       \<lparr>pg_total = 3, pg_page = 1, pg_totalPages = Some 1, pg_limit = 50\<rparr>)
   \<and> fst (GET_patient anonymous 5 queue_world) = Response 200 (One_patient other_tenant_patient)"
  by (simp add: clerk_session_def anonymous_def other_tenant_patient_def second_patient_def
      first_patient_def queue_world_def newPatientDoc_def GET_export_def GET_patients_def
      GET_patient_def patients_query_def Let_def await_def Patient_find_sorted_desc_def
      Patient_countDocuments_def Patient_find_page_def Patient_findOne_def dbcall_if fault_at_def)

section \<open>The public token of a patient\<close>















lemma token_example: "take 8 (generatePublicToken demo_entropy) = ''abb2b9c0''"
  by code_simp


section \<open>Login\<close>

lemma match_hospital_first:
  assumes "list_all (\<lambda>g. \<not> verifyHospitalPassword au (h_id g) pw) before"
    and "verifyHospitalPassword au (h_id h) pw"
  shows "match_hospital au pw (before @ h # rest) =
           (if h_subscriptionStatus h \<noteq> ''active'' then Expired else Matched (h_id h))"
  using assms by (induction before) simp_all

lemma login_after_find:
  assumes "loginValidators b = None"
    and "lb_hospitalPassword b = Some pw" and "pw \<noteq> []"
    and "truthy (lb_username b)" and "truthy (lb_userPassword b)"
    and "\<not> throws_at w 0"
    and "match_hospital au pw (hospitals w) = Expired"
  shows "POST_login au loginValidators ses b now w =
           ((Response 403 (Failure ''Subscription expired''), ses), w\<lparr>faults := tl (faults w)\<rparr>)"
  using assms
  by (simp add: POST_login_def Let_def await_def Hospital_find_all_def dbcall_if throws_at_def
      or_default_def)

text \<open>After an active hospital \<open>m\<close> was selected: the user is looked up in \<open>m\<close>.\<close>

lemma login_after_match:
  assumes "loginValidators b = None"
    and "lb_hospitalPassword b = Some pw" and "pw \<noteq> []"
    and "truthy (lb_username b)" and "truthy (lb_userPassword b)"
    and "\<not> throws_at w 0"
    and "match_hospital au pw (hospitals w) = Matched m"
    and "\<not> throws_at w 1"
  shows "find (\<lambda>u. u_hospitalId u = m \<and> u_username u = or_default (lb_username b) []) (users w) = None
           \<Longrightarrow> POST_login au loginValidators ses b now w =
                 ((Response 401 (Failure ''Invalid username or password''), ses),
                  w\<lparr>faults := tl (tl (faults w))\<rparr>)"
    and "find (\<lambda>u. u_hospitalId u = m \<and> u_username u = or_default (lb_username b) []) (users w) = Some usr
           \<Longrightarrow> \<not> comparePassword au (or_default (lb_userPassword b) []) (u_password usr)
           \<Longrightarrow> POST_login au loginValidators ses b now w =
                 ((Response 401 (Failure ''Invalid username or password''), ses),
                  w\<lparr>faults := tl (tl (faults w))\<rparr>)"
    and "find (\<lambda>u. u_hospitalId u = m \<and> u_username u = or_default (lb_username b) []) (users w) = Some usr
           \<Longrightarrow> comparePassword au (or_default (lb_userPassword b) []) (u_password usr)
           \<Longrightarrow> \<not> throws_at w 2 \<Longrightarrow> \<not> throws_at w 3
           \<Longrightarrow> POST_login au loginValidators ses b now w =
                 ((Response 200
                     (Login_successful
                        \<lparr>lu_id = u_id usr, lu_username = u_username usr, lu_role = u_role usr,
                         lu_hospitalId = m\<rparr>),
                   ses\<lparr>s_userId := Some (u_id usr), s_hospitalId := Some m,
                       s_username := Some (u_username usr), s_role := Some (u_role usr)\<rparr>),
                  w\<lparr>faults := tl (tl (tl (tl (faults w)))),
                    users := update_first (\<lambda>u. u_id u = u_id usr)
                               (\<lambda>u. u\<lparr>u_lastLogin := Some now\<rparr>) (users w),
                    hospitals := update_first (\<lambda>g. h_id g = m)
                                   (\<lambda>g. g\<lparr>h_lastLogin := Some now\<rparr>) (hospitals w)\<rparr>)"
  using assms
  by (simp_all add: POST_login_def Let_def await_def Hospital_find_all_def User_findOne_def
      User_findByIdAndUpdate_def Hospital_findByIdAndUpdate_def dbcall_if throws_at_def
      fault_at_tl numeral_2_eq_2 numeral_3_eq_3 or_default_def)

lemma login_failure_keeps_session:
  assumes "fst (POST_login au loginValidators ses b now w) = (Response code answer, ses')"
    and "code \<noteq> 200"
  shows "ses' = ses"
  using assms
  by (auto simp: POST_login_def Let_def await_def Hospital_find_all_def User_findOne_def
      User_findByIdAndUpdate_def Hospital_findByIdAndUpdate_def dbcall_if
      split: option.splits if_splits hospital_match.splits)

lemma login_success_hospital:
  assumes "fst (POST_login au loginValidators ses b now w) = (Response 200 answer, ses')"
    and "loginValidators b = None"
  shows "\<exists>m. match_hospital au (or_default (lb_hospitalPassword b) []) (hospitals w) = Matched m
             \<and> s_hospitalId ses' = Some m"
  using assms
  by (auto simp: POST_login_def Let_def await_def Hospital_find_all_def User_findOne_def
      User_findByIdAndUpdate_def Hospital_findByIdAndUpdate_def dbcall_if
      split: option.splits if_splits hospital_match.splits)

text \<open>
  Claim C10. Let the validators pass, the three credentials be present and
  \<open>Hospital.find\<close> go through, and let \<open>h\<close> be the first hospital, in the order of the
  collection, whose password check accepts the given hospital password. Then \<open>h\<close> is
  the hospital the loop selects, whatever comes after it in the collection: the loop ends
  as expired when \<open>h\<close> is not active and with the id of \<open>h\<close> when it is.

  If \<open>h\<close> is not active the request ends with 403 \<open>Subscription expired\<close>, the session as
  it was, after that one database call: the users are never read, whatever the user name
  and the user password.

  If \<open>h\<close> is active the request goes on to the user of that name in \<open>h\<close>, and in no other
  hospital: without such a user, or with a wrong user password, it ends with 401, the
  session as it was; with the right password, and the two updates of \<open>lastLogin\<close> going
  through, it ends with 200, the session set to that user and to \<open>h\<close>.

  A login that succeeds is a login into \<open>h\<close>. And whenever the answer is not a 200, the
  session is unchanged.
\<close>

theorem login_first_match_expiry:
  assumes validators: "loginValidators b = None"
    and given: "lb_hospitalPassword b = Some pw" "pw \<noteq> []"
    and names: "truthy (lb_username b)" "truthy (lb_userPassword b)"
    and ok: "\<not> throws_at w 0"
    and order: "hospitals w = before @ h # rest"
    and earlier: "list_all (\<lambda>g. \<not> verifyHospitalPassword au (h_id g) pw) before"
    and accepted: "verifyHospitalPassword au (h_id h) pw"
  shows "match_hospital au pw (hospitals w) =
           (if h_subscriptionStatus h \<noteq> ''active'' then Expired else Matched (h_id h))
       \<and> (h_subscriptionStatus h \<noteq> ''active'' \<longrightarrow>
            POST_login au loginValidators ses b now w =
              ((Response 403 (Failure ''Subscription expired''), ses), w\<lparr>faults := tl (faults w)\<rparr>))
       \<and> (h_subscriptionStatus h = ''active'' \<and> \<not> throws_at w 1 \<longrightarrow>
            (case find (\<lambda>u. u_hospitalId u = h_id h \<and> u_username u = or_default (lb_username b) [])
                    (users w) of
               None \<Rightarrow>
                 POST_login au loginValidators ses b now w =
                   ((Response 401 (Failure ''Invalid username or password''), ses),
                    w\<lparr>faults := tl (tl (faults w))\<rparr>)
             | Some usr \<Rightarrow>
                 if \<not> comparePassword au (or_default (lb_userPassword b) []) (u_password usr)
                 then POST_login au loginValidators ses b now w =
                        ((Response 401 (Failure ''Invalid username or password''), ses),
                         w\<lparr>faults := tl (tl (faults w))\<rparr>)
                 else \<not> throws_at w 2 \<and> \<not> throws_at w 3 \<longrightarrow>
                      POST_login au loginValidators ses b now w =
                        ((Response 200
                            (Login_successful
                               \<lparr>lu_id = u_id usr, lu_username = u_username usr, lu_role = u_role usr,
                                lu_hospitalId = h_id h\<rparr>),
                          ses\<lparr>s_userId := Some (u_id usr), s_hospitalId := Some (h_id h),
                              s_username := Some (u_username usr), s_role := Some (u_role usr)\<rparr>),
                         w\<lparr>faults := tl (tl (tl (tl (faults w)))),
                           users := update_first (\<lambda>u. u_id u = u_id usr)
                                      (\<lambda>u. u\<lparr>u_lastLogin := Some now\<rparr>) (users w),
                           hospitals := update_first (\<lambda>g. h_id g = h_id h)
                                          (\<lambda>g. g\<lparr>h_lastLogin := Some now\<rparr>) (hospitals w)\<rparr>)))
       \<and> (\<forall>answer ses'. fst (POST_login au loginValidators ses b now w) = (Response 200 answer, ses')
              \<longrightarrow> h_subscriptionStatus h = ''active'' \<and> s_hospitalId ses' = Some (h_id h))
       \<and> (\<forall>code answer ses'. fst (POST_login au loginValidators ses b now w) = (Response code answer, ses')
              \<and> code \<noteq> 200 \<longrightarrow> ses' = ses)"
proof -
  have m: "match_hospital au pw (hospitals w) =
             (if h_subscriptionStatus h \<noteq> ''active'' then Expired else Matched (h_id h))"
    using match_hospital_first [OF earlier accepted] by (simp add: order)
  have expired: "h_subscriptionStatus h \<noteq> ''active'' \<longrightarrow>
                   POST_login au loginValidators ses b now w =
                     ((Response 403 (Failure ''Subscription expired''), ses),
                      w\<lparr>faults := tl (faults w)\<rparr>)"
    using login_after_find [of loginValidators b pw w au ses now] validators given names ok m
    by simp
  have active: "case find (\<lambda>u. u_hospitalId u = h_id h \<and> u_username u = or_default (lb_username b) [])
                       (users w) of
               None \<Rightarrow>
                 POST_login au loginValidators ses b now w =
                   ((Response 401 (Failure ''Invalid username or password''), ses),
                    w\<lparr>faults := tl (tl (faults w))\<rparr>)
             | Some usr \<Rightarrow>
                 if \<not> comparePassword au (or_default (lb_userPassword b) []) (u_password usr)
                 then POST_login au loginValidators ses b now w =
                        ((Response 401 (Failure ''Invalid username or password''), ses),
                         w\<lparr>faults := tl (tl (faults w))\<rparr>)
                 else \<not> throws_at w 2 \<and> \<not> throws_at w 3 \<longrightarrow>
                      POST_login au loginValidators ses b now w =
                        ((Response 200
                            (Login_successful
                               \<lparr>lu_id = u_id usr, lu_username = u_username usr, lu_role = u_role usr,
                                lu_hospitalId = h_id h\<rparr>),
                          ses\<lparr>s_userId := Some (u_id usr), s_hospitalId := Some (h_id h),
                              s_username := Some (u_username usr), s_role := Some (u_role usr)\<rparr>),
                         w\<lparr>faults := tl (tl (tl (tl (faults w)))),
                           users := update_first (\<lambda>u. u_id u = u_id usr)
                                      (\<lambda>u. u\<lparr>u_lastLogin := Some now\<rparr>) (users w),
                           hospitals := update_first (\<lambda>g. h_id g = h_id h)
                                          (\<lambda>g. g\<lparr>h_lastLogin := Some now\<rparr>) (hospitals w)\<rparr>)"
    if live: "h_subscriptionStatus h = ''active''" and second: "\<not> throws_at w 1"
  proof -
    have sel: "match_hospital au pw (hospitals w) = Matched (h_id h)"
      using m live by simp
    note run = login_after_match [where loginValidators = loginValidators and b = b and pw = pw
        and w = w and au = au and m = "h_id h" and ses = ses and now = now,
        OF validators given names ok sel second]
    show ?thesis
    proof (cases "find (\<lambda>u. u_hospitalId u = h_id h \<and> u_username u = or_default (lb_username b) [])
                    (users w)")
      case None
      then show ?thesis
        using run(1) by simp
    next
      case (Some usr)
      then show ?thesis
        using run(2) [of usr] run(3) [of usr] by simp
    qed
  qed
  have success: "h_subscriptionStatus h = ''active'' \<and> s_hospitalId ses' = Some (h_id h)"
    if "fst (POST_login au loginValidators ses b now w) = (Response 200 answer, ses')"
    for answer ses'
    using login_success_hospital [of au loginValidators ses b now w answer ses'] that validators m given
    by (auto simp: or_default_def split: if_splits)
  have failure: "ses' = ses"
    if "fst (POST_login au loginValidators ses b now w) = (Response code answer, ses') \<and> code \<noteq> 200"
    for code answer ses'
    using that login_failure_keeps_session by blast
  show ?thesis
    using m expired active success failure by blast
qed

text \<open>
  Both hospitals accept the password. With the expired one first, the administrator of
  the active hospital is refused with 403 and the session stays anonymous; with the
  active one first, the same request logs the administrator into it.
\<close>

theorem login_first_match_expiry_witness:
  "POST_login demo_auth (\<lambda>_. None) anonymous lake_login 9000 login_world =
     ((Response 403 (Failure ''Subscription expired''), anonymous), login_world)
   \<and> fst (POST_login demo_auth (\<lambda>_. None) anonymous lake_login 9000 active_first_world) =
       (Response 200
          (Login_successful
             \<lparr>lu_id = 21, lu_username = ''admin'', lu_role = ''admin'', lu_hospitalId = 2\<rparr>),
        anonymous\<lparr>s_userId := Some 21, s_hospitalId := Some 2, s_username := Some ''admin'',
                   s_role := Some ''admin''\<rparr>)"
proof -
  have given: "lb_hospitalPassword lake_login = Some ''monthly''" "''monthly'' \<noteq> []"
    by (simp_all add: lake_login_def)
  have names: "truthy (lb_username lake_login)" "truthy (lb_userPassword lake_login)"
    by (simp_all add: lake_login_def)
  have ok: "\<not> throws_at login_world 0"
    by (simp add: throws_at_def fault_at_def login_world_def)
  have order: "hospitals login_world = [] @ expired_hospital # [active_hospital]"
    by (simp add: login_world_def)
  have earlier: "list_all (\<lambda>g. \<not> verifyHospitalPassword demo_auth (h_id g) ''monthly'') []"
    by simp
  have accepted: "verifyHospitalPassword demo_auth (h_id expired_hospital) ''monthly''"
    by (simp add: demo_auth_def)
  have expired: "h_subscriptionStatus expired_hospital \<noteq> ''active''"
    by (simp add: expired_hospital_def)
  have same: "login_world\<lparr>faults := tl (faults login_world)\<rparr> = login_world"
    by (simp add: login_world_def)
  have refused: "POST_login demo_auth (\<lambda>_. None) anonymous lake_login 9000 login_world =
                   ((Response 403 (Failure ''Subscription expired''), anonymous), login_world)"
    using login_first_match_expiry [where loginValidators = "\<lambda>_. None" and b = lake_login
        and pw = "''monthly''" and w = login_world and before = "[]" and h = expired_hospital
        and rest = "[active_hospital]" and au = demo_auth and ses = anonymous and now = 9000]
      given names ok order earlier accepted expired same
    by simp
  have quiet: "\<not> throws_at active_first_world n" for n
    by (simp add: throws_at_def fault_at_def active_first_world_def login_world_def)
  have order': "hospitals active_first_world = [] @ active_hospital # [expired_hospital]"
    by (simp add: active_first_world_def login_world_def)
  have accepted': "verifyHospitalPassword demo_auth (h_id active_hospital) ''monthly''"
    by (simp add: demo_auth_def)
  have live: "h_subscriptionStatus active_hospital = ''active''"
    by (simp add: active_hospital_def)
  have usr: "find (\<lambda>u. u_hospitalId u = h_id active_hospital
                        \<and> u_username u = or_default (lb_username lake_login) [])
               (users active_first_world) = Some lake_admin"
    by (simp add: active_first_world_def login_world_def lake_admin_def active_hospital_def
        lake_login_def or_default_def)
  have pass: "comparePassword demo_auth (or_default (lb_userPassword lake_login) [])
                (u_password lake_admin)"
    by (simp add: demo_auth_def lake_login_def lake_admin_def or_default_def)
  have "POST_login demo_auth (\<lambda>_. None) anonymous lake_login 9000 active_first_world =
          ((Response 200
              (Login_successful
                 \<lparr>lu_id = u_id lake_admin, lu_username = u_username lake_admin,
                  lu_role = u_role lake_admin, lu_hospitalId = h_id active_hospital\<rparr>),
            anonymous\<lparr>s_userId := Some (u_id lake_admin), s_hospitalId := Some (h_id active_hospital),
                       s_username := Some (u_username lake_admin),
                       s_role := Some (u_role lake_admin)\<rparr>),
           active_first_world
             \<lparr>faults := tl (tl (tl (tl (faults active_first_world)))),
              users := update_first (\<lambda>u. u_id u = u_id lake_admin)
                         (\<lambda>u. u\<lparr>u_lastLogin := Some 9000\<rparr>) (users active_first_world),
              hospitals := update_first (\<lambda>g. h_id g = h_id active_hospital)
                             (\<lambda>g. g\<lparr>h_lastLogin := Some 9000\<rparr>) (hospitals active_first_world)\<rparr>)"
    using login_first_match_expiry [where loginValidators = "\<lambda>_. None" and b = lake_login
        and pw = "''monthly''" and w = active_first_world and before = "[]" and h = active_hospital
        and rest = "[expired_hospital]" and au = demo_auth and ses = anonymous and now = 9000]
      given names quiet order' earlier accepted' live usr pass
    by simp
  then have admitted:
    "fst (POST_login demo_auth (\<lambda>_. None) anonymous lake_login 9000 active_first_world) =
       (Response 200
          (Login_successful
             \<lparr>lu_id = 21, lu_username = ''admin'', lu_role = ''admin'', lu_hospitalId = 2\<rparr>),
        anonymous\<lparr>s_userId := Some 21, s_hospitalId := Some 2, s_username := Some ''admin'',
                   s_role := Some ''admin''\<rparr>)"
    by (simp add: lake_admin_def active_hospital_def)
  show ?thesis
    using refused admitted by blast
qed

section \<open>Unique user names per hospital\<close>

lemma await_users_unique:
  assumes "\<And>w1. users_unique w1 \<Longrightarrow> users_unique (snd (m w1))"
    and "\<And>x w1. users_unique w1 \<Longrightarrow> users_unique (snd (k x w1))"
    and "users_unique w"
  shows "users_unique (snd (await m k c w))"
proof (cases "m w")
  case (Pair r w1)
  have "users_unique w1"
    using assms(1) [OF assms(3)] Pair by simp
  then show ?thesis
    using assms(2) Pair by (cases r) (simp_all add: await_def)
qed

lemma dbcall_users_unique:
  assumes "\<And>w1. users_unique w1 \<Longrightarrow> users_unique (snd (f w1))"
    and "users_unique w"
  shows "users_unique (snd (dbcall f w))"
proof -
  have "users_unique (w\<lparr>faults := tl (faults w)\<rparr>)"
    using assms(2) by (simp add: users_unique_def)
  then show ?thesis
    using assms(1) by (simp add: dbcall_if)
qed

lemma User_create_users_unique:
  "users_unique w \<Longrightarrow> users_unique (snd (User_create doc w))"
  by (auto simp: User_create_def dbcall_if users_unique_def Let_def list_ex_iff user_key_def)

lemma lastLogin_keys:
  "map user_key (update_first P (\<lambda>u. u\<lparr>u_lastLogin := x\<rparr>) us) = map user_key us"
  by (induction us) (simp_all add: user_key_def)

lemma readonly_users_unique:
  "users_unique w \<Longrightarrow> users_unique (snd (Hospital_findOne q w))"
  "users_unique w \<Longrightarrow> users_unique (snd (Hospital_create hdoc w))"
  "users_unique w \<Longrightarrow> users_unique (snd (Hospital_find_all w))"
  "users_unique w \<Longrightarrow> users_unique (snd (User_findOne uq w))"
  "users_unique w \<Longrightarrow> users_unique (snd (Hospital_findByIdAndUpdate i hf w))"
  "users_unique w \<Longrightarrow> users_unique (snd (User_findByIdAndUpdate i (\<lambda>u. u\<lparr>u_lastLogin := x\<rparr>) w))"
  by (simp_all add: Hospital_findOne_def Hospital_create_def Hospital_find_all_def User_findOne_def
      Hospital_findByIdAndUpdate_def User_findByIdAndUpdate_def dbcall_if users_unique_def Let_def
      lastLogin_keys)

lemma register_users_unique:
  "users_unique w \<Longrightarrow> users_unique (snd (POST_hospitals_register au registerValidators b now expiry w))"
  unfolding POST_hospitals_register_def
  by (auto split: option.splits simp: Let_def
      intro!: await_users_unique readonly_users_unique User_create_users_unique)

lemma login_users_unique:
  "users_unique w \<Longrightarrow> users_unique (snd (POST_login au loginValidators ses b now w))"
  unfolding POST_login_def
  by (auto split: option.splits hospital_match.splits simp: Let_def
      intro!: await_users_unique readonly_users_unique)

lemma reachable_users_unique: "reachable w \<Longrightarrow> users_unique w"
proof (induction rule: reachable.induct)
  case (reachable_init w)
  then show ?case by (simp add: users_unique_def)
next
  case (reachable_create w doc)
  then show ?case by (simp add: User_create_users_unique)
next
  case (reachable_register w au registerValidators b now expiry)
  then show ?case by (simp add: register_users_unique)
next
  case (reachable_login w au loginValidators ses lb now)
  then show ?case by (simp add: login_users_unique)
next
  case (reachable_other w w')
  then show ?case by (simp add: users_unique_def)
qed

lemma User_create_outcome:
  assumes "\<not> throws_at w 0" and "u_username doc \<noteq> []" and "u_role doc \<noteq> []"
    and "u_password doc \<noteq> []"
  shows "User_create doc w =
           (if list_ex (\<lambda>u. u_hospitalId u = u_hospitalId doc \<and> u_username u = u_username doc) (users w)
            then (Inl DuplicateKeyError, w\<lparr>faults := tl (faults w)\<rparr>)
            else (Inr (doc\<lparr>u_id := nextOid w\<rparr>),
                  w\<lparr>faults := tl (faults w), users := users w @ [doc\<lparr>u_id := nextOid w\<rparr>],
                    nextOid := Suc (nextOid w)\<rparr>))"
  using assms
  by (simp add: User_create_def dbcall_if throws_at_def Let_def user_key_def)

text \<open>
  Claim C4. In every reachable store no two users have the same hospital and user
  name. There, \<open>User.create\<close> of a valid document whose hospital and user name are
  those of a stored user fails with a duplicate key error and leaves the users as they
  were; any other valid document is stored, so a user name taken in one hospital can be
  used in another. (The driver call is assumed not to throw.)
\<close>

theorem user_unique_per_hospital:
  assumes "reachable w"
  shows "distinct (map user_key (users w))
       \<and> (\<not> throws_at w 0 \<and> u_username doc \<noteq> [] \<and> u_role doc \<noteq> [] \<and> u_password doc \<noteq> [] \<longrightarrow>
            (if list_ex (\<lambda>u. u_hospitalId u = u_hospitalId doc \<and> u_username u = u_username doc) (users w)
             then fst (User_create doc w) = Inl DuplicateKeyError
                  \<and> users (snd (User_create doc w)) = users w
             else fst (User_create doc w) = Inr (doc\<lparr>u_id := nextOid w\<rparr>)
                  \<and> users (snd (User_create doc w)) = users w @ [doc\<lparr>u_id := nextOid w\<rparr>]))"
proof -
  have "distinct (map user_key (users w))"
    using reachable_users_unique [OF assms] by (simp add: users_unique_def)
  then show ?thesis
    by (simp add: User_create_outcome)
qed

lemma login_world_reachable: "reachable login_world"
proof -
  let ?w0 = "login_world\<lparr>users := [], nextOid := 21\<rparr>"
  have "reachable ?w0"
    by (rule reachable_init) simp
  then have "reachable (snd (User_create lake_admin ?w0))"
    by (rule reachable_create)
  moreover have "users login_world = users (snd (User_create lake_admin ?w0))"
    by (simp add: User_create_def dbcall_if fault_at_def Let_def login_world_def lake_admin_def)
  ultimately show ?thesis
    by (rule reachable_other)
qed

text \<open>
  The store with the administrator of hospital 2 is reachable. A second \<open>admin\<close> for
  hospital 2 is refused; an \<open>admin\<close> for hospital 1 is stored.
\<close>

theorem user_unique_per_hospital_witness:
  "distinct (map user_key (users login_world))
   \<and> fst (User_create lake_admin login_world) = Inl DuplicateKeyError
   \<and> users (snd (User_create lake_admin login_world)) = [lake_admin]
   \<and> users (snd (User_create (lake_admin\<lparr>u_hospitalId := 1\<rparr>) login_world))
       = [lake_admin, lake_admin\<lparr>u_hospitalId := 1, u_id := 30\<rparr>]"
proof -
  have ok: "\<not> throws_at login_world 0"
    by (simp add: throws_at_def fault_at_def login_world_def)
  have valid: "u_username lake_admin \<noteq> []" "u_role lake_admin \<noteq> []" "u_password lake_admin \<noteq> []"
    by (simp_all add: lake_admin_def)
  have a: "distinct (map user_key (users login_world))
           \<and> fst (User_create lake_admin login_world) = Inl DuplicateKeyError
           \<and> users (snd (User_create lake_admin login_world)) = [lake_admin]"
    using user_unique_per_hospital [OF login_world_reachable, of lake_admin] ok valid
    by (simp add: login_world_def lake_admin_def)
  have b: "users (snd (User_create (lake_admin\<lparr>u_hospitalId := 1\<rparr>) login_world))
             = [lake_admin, lake_admin\<lparr>u_hospitalId := 1, u_id := 30\<rparr>]"
    using user_unique_per_hospital [OF login_world_reachable, of "lake_admin\<lparr>u_hospitalId := 1\<rparr>"]
      ok valid
    by (simp add: login_world_def lake_admin_def)
  show ?thesis
    using a b by blast
qed

section \<open>Unique keys of the schemas\<close>

lemmas schema_defs =
  HospitalSchema_def UserSchema_def PatientSchema_def VitalSchema_def LabTestSchema_def
  LabResultSchema_def InventorySchema_def AppointmentSchema_def LabInventorySchema_def
  LabTestTypeSchema_def PrescriptionTemplateSchema_def plain_def required_def required_unique_def

text \<open>
  Claim C7, as amended. The schemas declare three unique keys: \<open>email\<close> of a hospital,
  \<open>(hospitalId, username)\<close> of a user and \<open>hospitalId\<close> of a prescription template. No
  other path and no other index of the eleven schemas is unique.
\<close>

theorem unique_indexes_of_the_schemas:
  "uniqueness_constraints =
     [(Hospital, [''email'']),
      (User, [''hospitalId'', ''username'']),
      (PrescriptionTemplate, [''hospitalId''])]"
  by (simp add: uniqueness_constraints_def schemas_def unique_keys_def schema_defs)

text \<open>
  Claim C7 as stated fails: the user key is not the only unique one. \<open>HospitalSchema\<close>
  marks \<open>email\<close> unique and \<open>PrescriptionTemplateSchema\<close> marks \<open>hospitalId\<close> unique.
\<close>

theorem only_user_key_unique_counterexample:
  "List.member uniqueness_constraints (Hospital, [''email''])
   \<and> List.member uniqueness_constraints (PrescriptionTemplate, [''hospitalId''])
   \<and> (Hospital, [''email'']) \<noteq> (User, [''hospitalId'', ''username''])
   \<and> (PrescriptionTemplate, [''hospitalId'']) \<noteq> (User, [''hospitalId'', ''username''])"
  by (simp add: uniqueness_constraints_def schemas_def unique_keys_def schema_defs)

text \<open>The unique \<open>email\<close> at work: a second hospital with a stored email is refused.\<close>

lemma Hospital_create_duplicate_email:
  assumes "\<not> throws_at w 0" and "h_name doc \<noteq> []" and "h_email doc \<noteq> []"
    and "list_ex (\<lambda>h. h_email h = h_email doc) (hospitals w)"
  shows "Hospital_create doc w = (Inl DuplicateKeyError, w\<lparr>faults := tl (faults w)\<rparr>)"
  using assms by (simp add: Hospital_create_def dbcall_if throws_at_def)

end
